theory Spec2Isabelle
  imports Main "HOL-Library.Sublist"
begin

section \<open>Jellyfin to Plex playlist migration\<close>

text \<open>
  The repository holds three implementations of one tool, each with its own copy of the
  resolver and of the orchestrator:
  \<^item> \<^verbatim>\<open>migrate_playlist.py\<close> (classes JellyfinClient, PlexClient, PlaylistMigrator),
    suffix \<open>_mp\<close> below;
  \<^item> \<^verbatim>\<open>playlist_migrator.py\<close> (classes JellyfinClient, PlexClient and the function
    migrate_playlist), suffix \<open>_pm\<close>;
  \<^item> \<^verbatim>\<open>migrate_playlist/cli.py\<close> (functions find_plex_item and migrate_playlist),
    suffix \<open>_cli\<close>.

  The two servers are an environment the code reads. Every call that reaches a server is
  an entry of the record \<open>env\<close> giving the call's answer, either an exception or a value;
  the answers are a snapshot that does not change during a run. What a run does to the
  outside (log lines, printed lines, calls to the Plex server) is the list of events it
  returns beside its result.
\<close>

subsection \<open>Exceptions, events, data\<close>

text \<open>
  What a server or a library call raises is a \<open>server_error\<close>: \<open>RequestException\<close> is
  what the requests library raises, \<open>OtherError\<close> any other subclass of Exception (those
  of plexapi among them). What leaves a function of the repository is an \<open>exn\<close>: such an
  error, a \<open>KeyError\<close> from the subscript of a missing dictionary key, or the
  \<open>SystemExit\<close> of \<^verbatim>\<open>sys.exit\<close> and \<^verbatim>\<open>raise SystemExit\<close>.
\<close>

datatype server_error =
    RequestException string
  | OtherError string

datatype exn =
    Raised server_error
  | KeyError string
  | SystemExit string

fun str_error :: "server_error \<Rightarrow> string" where
  "str_error (RequestException m) = m"
| "str_error (OtherError m) = m"

text \<open>
  A Plex library entry as the code reads it: its title and, when the object has the
  attribute \<open>media\<close>, the files of the parts of each of its media. Such an object is
  truthy in Python.
\<close>

record plex_item =
  pi_title :: string
  pi_media :: "string list list option"

datatype level = INFO | WARNING | ERROR

datatype event =
    Log level string
  | Print string
  | PrintErr string
  | PlexSections
  | PlexAll string
  | PlexSearch string string
  | PlexCreate string "plex_item list"

text \<open>
  \<open>Log\<close> is a call of \<^verbatim>\<open>logging.info/warning/error\<close>, \<open>Print\<close> a \<^verbatim>\<open>print\<close> to
  standard output, \<open>PrintErr\<close> one to standard error. \<open>PlexSections\<close> is a call of
  \<^verbatim>\<open>library.sections()\<close>, \<open>PlexAll t\<close> of \<^verbatim>\<open>section.all()\<close> on the section titled
  \<open>t\<close>, \<open>PlexSearch t p\<close> of \<^verbatim>\<open>section.search\<close> for the path \<open>p\<close> there, and
  \<open>PlexCreate n xs\<close> the playlist-creation call with name \<open>n\<close> and items \<open>xs\<close>. An event
  is recorded when the call is issued, whether it then raises or returns.
\<close>

fun is_query :: "event \<Rightarrow> bool" where
  "is_query PlexSections = True"
| "is_query (PlexAll t) = True"
| "is_query (PlexSearch t p) = True"
| "is_query e = False"

fun is_create :: "event \<Rightarrow> bool" where
  "is_create (PlexCreate n xs) = True"
| "is_create e = False"

fun is_output :: "event \<Rightarrow> bool" where
  "is_output (Log l m) = True"
| "is_output (Print m) = True"
| "is_output (PrintErr m) = True"
| "is_output e = False"

text \<open>
  A Plex library section: its title, what \<^verbatim>\<open>all()\<close> answers, and what
  \<^verbatim>\<open>search(filepath=p)\<close> and \<^verbatim>\<open>search(filename=p)\<close> answer for a path \<open>p\<close>. The two
  searches run on the Plex server; the code only sees their answers.
\<close>

record library_section =
  sec_title :: string
  sec_all :: "server_error + plex_item list"
  sec_search_filepath :: "string \<Rightarrow> server_error + plex_item list"
  sec_search_filename :: "string \<Rightarrow> server_error + plex_item list"

text \<open>
  Jellyfin's JSON objects, with the keys the code reads. A key that may be missing is an
  option. A media source is a dictionary of which only the key \<open>Path\<close> is read. A playlist
  dictionary is never empty (Jellyfin sends more keys than the two read here), so it is
  truthy.
\<close>

record playlist =
  pl_Name :: "string option"
  pl_Id :: "string option"

record jf_item =
  it_Name :: "string option"
  it_MediaSources :: "string option list option"
  it_Path :: "string option"

record env =
  jf_authenticate :: "server_error + string"
  jf_users_me :: "server_error + string"
  jf_playlists :: "server_error + playlist list"
  jf_playlist_items :: "string \<Rightarrow> server_error + jf_item list"
  plex_account :: "server_error + string"
  plex_server :: "server_error + string"
  plex_sections :: "server_error + library_section list"
  plex_createPlaylist :: "string \<Rightarrow> plex_item list \<Rightarrow> server_error + string"
  str_lower :: "string \<Rightarrow> string"

text \<open>
  \<open>jf_authenticate\<close>: the answer to the login of \<^verbatim>\<open>playlist_migrator.py\<close> (the user's
  name). \<open>jf_users_me\<close>: the user id \<^verbatim>\<open>cli.py\<close> asks for. \<open>jf_playlists\<close>: the
  playlists Jellyfin answers with (all of them in \<^verbatim>\<open>migrate_playlist.py\<close> and
  \<^verbatim>\<open>cli.py\<close>, the result of the search for the requested name in
  \<^verbatim>\<open>playlist_migrator.py\<close>). \<open>jf_playlist_items\<close>: the items of the playlist with a
  given id. \<open>plex_account\<close>: signing in to MyPlex (the account's user name).
  \<open>plex_server\<close>: connecting to the Plex server (its friendly name).
  \<open>plex_sections\<close>: the library sections, in the order Plex reports them.
  \<open>plex_createPlaylist\<close>: the answer to the creation call (the new playlist's title).
  \<open>str_lower\<close>: Python's built-in \<^verbatim>\<open>str.lower\<close>, which the code calls and the
  repository does not define. It is left open: what is proved of a comparison without
  regard to case holds for whatever function \<^verbatim>\<open>str.lower\<close> is, on every alphabet.
\<close>

subsection \<open>Helpers shared by the three files\<close>

text \<open>Events emitted before a computation that itself returns events and a result.\<close>

definition emit :: "event list \<Rightarrow> event list \<times> 'a \<Rightarrow> event list \<times> 'a" where
  "emit t m = (t @ fst m, snd m)"

text \<open>
  What \<^verbatim>\<open>str.lower\<close> does on ASCII text, the letters A to Z folded: the example
  data, all of it ASCII, takes \<open>lower\<close> for \<open>str_lower\<close>. And \<^verbatim>\<open>str(n)\<close> of a
  length.
\<close>

definition lower_char :: "char \<Rightarrow> char" where
  "lower_char c =
     (if 65 \<le> (of_char c :: nat) \<and> (of_char c :: nat) \<le> 90
      then char_of ((of_char c :: nat) + 32) else c)"

definition lower :: "string \<Rightarrow> string" where
  "lower s = map lower_char s"

fun str_nat :: "nat \<Rightarrow> string" where
  "str_nat n =
     (if n < 10 then [char_of (48 + n)]
      else str_nat (n div 10) @ [char_of (48 + n mod 10)])"

declare str_nat.simps [simp del]

text \<open>
  \<^verbatim>\<open>if not file_path\<close>: None and the empty string are both falsy. \<open>truthy p\<close> is
  \<open>Some s\<close> exactly when \<open>p\<close> is a non-empty string \<open>s\<close>.
\<close>

definition truthy :: "string option \<Rightarrow> string option" where
  "truthy p = (case p of None \<Rightarrow> None | Some s \<Rightarrow> if s = [] then None else Some s)"

text \<open>\<^verbatim>\<open>item.get('Name', 'Unknown')\<close>\<close>

definition item_name :: "jf_item \<Rightarrow> string" where
  "item_name item = (case it_Name item of None \<Rightarrow> ''Unknown'' | Some n \<Rightarrow> n)"

text \<open>
  The path of the first media source, where the key \<open>MediaSources\<close> is present with a
  non-empty list and that source has the key \<open>Path\<close> (\<^verbatim>\<open>migrate_playlist.py\<close> lines
  100-104, \<^verbatim>\<open>playlist_migrator.py\<close> lines 191-193).
\<close>

definition media_source_path :: "jf_item \<Rightarrow> string option" where
  "media_source_path item =
     (case it_MediaSources item of
        None \<Rightarrow> None
      | Some [] \<Rightarrow> None
      | Some (media_source # _) \<Rightarrow> media_source)"

subsection \<open>migrate\_playlist.py\<close>

text \<open>
  \<^verbatim>\<open>JellyfinClient.find_playlist_by_name\<close>: the first playlist whose name, lowered,
  equals the lowered requested name (a missing name counts as the empty string).
\<close>

definition find_playlist_by_name :: "env \<Rightarrow> string \<Rightarrow> exn + playlist option" where
  "find_playlist_by_name env name =
     (case jf_playlists env of
        Inl e \<Rightarrow> Inl (Raised e)
      | Inr playlists \<Rightarrow>
          Inr (find (\<lambda>playlist.
                 str_lower env (case pl_Name playlist of None \<Rightarrow> [] | Some n \<Rightarrow> n)
                   = str_lower env name)
               playlists))"

text \<open>
  \<^verbatim>\<open>PlexClient.find_media_by_path\<close>. The test on one entry is the innermost
  \<^verbatim>\<open>if part.file == file_path\<close> under the three loops over the entry's media and
  their parts; \<^verbatim>\<open>section.all()\<close> raising is caught per section, logged, and the next
  section is tried. \<^verbatim>\<open>library.sections()\<close> raising is not caught.
\<close>

definition part_file_equals :: "string \<Rightarrow> plex_item \<Rightarrow> bool" where
  "part_file_equals file_path item =
     (case pi_media item of
        None \<Rightarrow> False
      | Some media \<Rightarrow> file_path \<in> set (concat media))"

fun scan_sections_mp :: "string \<Rightarrow> library_section list \<Rightarrow> event list \<times> plex_item option" where
  "scan_sections_mp file_path [] = ([], None)"
| "scan_sections_mp file_path (sect # rest) =
     emit [PlexAll (sec_title sect)]
       (case sec_all sect of
          Inl e \<Rightarrow>
            emit [Log WARNING (''Error searching section '' @ sec_title sect @ '': ''
                               @ str_error e)]
              (scan_sections_mp file_path rest)
        | Inr items \<Rightarrow>
            (case find (part_file_equals file_path) items of
               Some item \<Rightarrow> ([], Some item)
             | None \<Rightarrow> scan_sections_mp file_path rest))"

definition find_media_by_path_mp ::
  "env \<Rightarrow> string \<Rightarrow> event list \<times> (exn + plex_item option)" where
  "find_media_by_path_mp env file_path =
     emit [PlexSections]
       (case plex_sections env of
          Inl e \<Rightarrow> ([], Inl (Raised e))
        | Inr sections \<Rightarrow>
            (case scan_sections_mp file_path sections of (t, r) \<Rightarrow> (t, Inr r)))"

text \<open>
  \<^verbatim>\<open>PlaylistMigrator.migrate_playlist\<close>, in the order of its text: reading the source
  (lines 81-91), the loop over the items (lines 93-117), the report of the missing
  items, the gate, the dry run and the creation call (lines 119-142).
  The result of reading is \<open>None\<close> where the method returns False, and otherwise the
  playlist's name and its items.
\<close>

definition reading_source_mp ::
  "env \<Rightarrow> string \<Rightarrow> event list \<times> (exn + (string \<times> jf_item list) option)" where
  "reading_source_mp env playlist_name =
     emit [Log INFO (''Starting migration of playlist: '' @ playlist_name)]
       (case find_playlist_by_name env playlist_name of
          Inl e \<Rightarrow> ([], Inl e)
        | Inr None \<Rightarrow>
            ([Log ERROR (''Playlist '' @ [CHR 0x27] @ playlist_name @ [CHR 0x27]
                         @ '' not found in Jellyfin'')], Inr None)
        | Inr (Some jellyfin_playlist) \<Rightarrow>
            (case pl_Name jellyfin_playlist of
               None \<Rightarrow> ([], Inl (KeyError ''Name''))
             | Some nm \<Rightarrow>
                 (case pl_Id jellyfin_playlist of
                    None \<Rightarrow> ([], Inl (KeyError ''Id''))
                  | Some pid \<Rightarrow>
                      emit [Log INFO (''Found playlist: '' @ nm @ '' (ID: '' @ pid @ '')'')]
                        (case jf_playlist_items env pid of
                           Inl e \<Rightarrow> ([], Inl (Raised e))
                         | Inr jellyfin_items \<Rightarrow>
                             ([Log INFO (''Playlist contains ''
                                         @ str_nat (length jellyfin_items) @ '' items'')],
                              Inr (Some (nm, jellyfin_items)))))))"

fun items_loop_mp ::
  "env \<Rightarrow> jf_item list \<Rightarrow> plex_item list \<Rightarrow> string list
   \<Rightarrow> event list \<times> (exn + plex_item list \<times> string list)" where
  "items_loop_mp env [] plex_items missing_items = ([], Inr (plex_items, missing_items))"
| "items_loop_mp env (item # rest) plex_items missing_items =
     emit [Log INFO (''Processing item: '' @ item_name item)]
       (case truthy (media_source_path item) of
          None \<Rightarrow>
            emit [Log WARNING (''No file path found for item: '' @ item_name item)]
              (items_loop_mp env rest plex_items (missing_items @ [item_name item]))
        | Some file_path \<Rightarrow>
            (case find_media_by_path_mp env file_path of
               (t, Inl e) \<Rightarrow> (t, Inl e)
             | (t, Inr (Some plex_item)) \<Rightarrow>
                 emit (t @ [Log INFO (''Found matching Plex item: '' @ pi_title plex_item)])
                   (items_loop_mp env rest (plex_items @ [plex_item]) missing_items)
             | (t, Inr None) \<Rightarrow>
                 emit (t @ [Log WARNING (''No matching Plex item found for path: ''
                                         @ file_path)])
                   (items_loop_mp env rest plex_items
                      (missing_items @ [item_name item @ '' ('' @ file_path @ '')'']))))"

definition deciding_mp ::
  "env \<Rightarrow> string \<Rightarrow> bool \<Rightarrow> plex_item list \<Rightarrow> string list
   \<Rightarrow> event list \<times> (exn + bool)" where
  "deciding_mp env name dry_run plex_items missing_items =
     emit (if missing_items \<noteq> []
           then Log WARNING (''Could not find '' @ str_nat (length missing_items)
                             @ '' items in Plex:'')
                # map (\<lambda>item. Log WARNING (''  - '' @ item)) missing_items
           else [])
       (if plex_items = []
        then ([Log ERROR ''No matching items found in Plex. Cannot create playlist.''],
              Inr False)
        else
          emit [Log INFO (''Found '' @ str_nat (length plex_items)
                          @ '' matching items in Plex'')]
            (if dry_run
             then (Log INFO ''DRY RUN: Would create playlist with the following items:''
                   # map (\<lambda>item. Log INFO (''  - '' @ pi_title item)) plex_items,
                   Inr True)
             else
               emit [PlexCreate name plex_items]
                 (case plex_createPlaylist env name plex_items of
                    Inr title \<Rightarrow>
                      ([Log INFO (''Successfully created playlist '' @ [CHR 0x27] @ title
                                  @ [CHR 0x27] @ '' in Plex'')], Inr True)
                  | Inl e \<Rightarrow>
                      ([Log ERROR (''Failed to create playlist in Plex: '' @ str_error e)],
                       Inr False))))"

definition migrate_playlist_mp ::
  "env \<Rightarrow> string \<Rightarrow> bool \<Rightarrow> event list \<times> (exn + bool)" where
  "migrate_playlist_mp env playlist_name dry_run =
     (case reading_source_mp env playlist_name of
        (t, Inl e) \<Rightarrow> (t, Inl e)
      | (t, Inr None) \<Rightarrow> (t, Inr False)
      | (t, Inr (Some (name, jellyfin_items))) \<Rightarrow>
          emit t
            (case items_loop_mp env jellyfin_items [] [] of
               (t', Inl e) \<Rightarrow> (t', Inl e)
             | (t', Inr (plex_items, missing_items)) \<Rightarrow>
                 emit t' (deciding_mp env name dry_run plex_items missing_items)))"

subsection \<open>playlist\_migrator.py\<close>

text \<open>
  The pictographs that open four of this file's messages (found, not found, migrated,
  failed) are left out of the message texts below; a line feed is \<open>CHR 0x0A\<close>.

  \<^verbatim>\<open>JellyfinClient.search_playlists\<close> and \<^verbatim>\<open>JellyfinClient.get_playlist_items\<close>
  catch a RequestException, print it and answer the empty list; any other exception
  leaves them.
\<close>

definition search_playlists :: "env \<Rightarrow> event list \<times> (exn + playlist list)" where
  "search_playlists env =
     (case jf_playlists env of
        Inr items \<Rightarrow> ([], Inr items)
      | Inl (RequestException m) \<Rightarrow> ([Print (''Failed to search playlists: '' @ m)], Inr [])
      | Inl (OtherError m) \<Rightarrow> ([], Inl (Raised (OtherError m))))"

definition get_playlist_items_pm ::
  "env \<Rightarrow> string \<Rightarrow> event list \<times> (exn + jf_item list)" where
  "get_playlist_items_pm env playlist_id =
     (case jf_playlist_items env playlist_id of
        Inr items \<Rightarrow> ([], Inr items)
      | Inl (RequestException m) \<Rightarrow> ([Print (''Failed to get playlist items: '' @ m)], Inr [])
      | Inl (OtherError m) \<Rightarrow> ([], Inl (Raised (OtherError m))))"

text \<open>
  \<^verbatim>\<open>PlexClient.find_media_by_path\<close>: per library, the first result of
  \<^verbatim>\<open>library.search(filepath=file_path)\<close>; a search that raises is skipped by a bare
  \<^verbatim>\<open>except: continue\<close>; \<^verbatim>\<open>sections()\<close> raising is caught by the outer handler,
  printed, and answered with None.
\<close>

fun search_libraries_pm ::
  "string \<Rightarrow> library_section list \<Rightarrow> event list \<times> plex_item option" where
  "search_libraries_pm file_path [] = ([], None)"
| "search_libraries_pm file_path (library # rest) =
     emit [PlexSearch (sec_title library) file_path]
       (case sec_search_filepath library file_path of
          Inl e \<Rightarrow> search_libraries_pm file_path rest
        | Inr [] \<Rightarrow> search_libraries_pm file_path rest
        | Inr (result # _) \<Rightarrow> ([], Some result))"

definition find_media_by_path_pm :: "env \<Rightarrow> string \<Rightarrow> event list \<times> plex_item option" where
  "find_media_by_path_pm env file_path =
     emit [PlexSections]
       (case plex_sections env of
          Inl e \<Rightarrow>
            ([Print (''Error searching for media by path '' @ file_path @ '': ''
                     @ str_error e)], None)
        | Inr sections \<Rightarrow> search_libraries_pm file_path sections)"

text \<open>
  \<^verbatim>\<open>PlexClient.create_playlist\<close>: refuses an empty list, else issues the creation call
  and turns an exception into the answer False.
\<close>

definition create_playlist_pm ::
  "env \<Rightarrow> string \<Rightarrow> plex_item list \<Rightarrow> event list \<times> bool" where
  "create_playlist_pm env name items =
     (if items = []
      then ([Print (''No valid items found to create playlist '' @ [CHR 0x27] @ name
                    @ [CHR 0x27])], False)
      else
        emit [PlexCreate name items]
          (case plex_createPlaylist env name items of
             Inr playlist \<Rightarrow>
               ([Print (''Successfully created playlist '' @ [CHR 0x27] @ name @ [CHR 0x27]
                        @ '' with '' @ str_nat (length items) @ '' items'')], True)
           | Inl e \<Rightarrow>
               ([Print (''Failed to create playlist '' @ [CHR 0x27] @ name @ [CHR 0x27]
                        @ '': '' @ str_error e)], False)))"

text \<open>
  The function \<^verbatim>\<open>migrate_playlist\<close>. Lines 154-157: the start message and the two
  clients, whose constructors print and exit on failure.
\<close>

definition connecting_pm :: "env \<Rightarrow> string \<Rightarrow> event list \<times> (exn + unit)" where
  "connecting_pm env playlist_name =
     emit [Print (''Starting migration of playlist '' @ [CHR 0x27] @ playlist_name
                  @ [CHR 0x27] @ ''...'')]
       (case jf_authenticate env of
          Inl (RequestException m) \<Rightarrow>
            ([Print (''Failed to authenticate with Jellyfin: '' @ m)], Inl (SystemExit ''1''))
        | Inl (OtherError m) \<Rightarrow> ([], Inl (Raised (OtherError m)))
        | Inr user \<Rightarrow>
            emit [Print (''Successfully authenticated with Jellyfin as user: '' @ user)]
              (case plex_account env of
                 Inl e \<Rightarrow>
                   ([Print (''Failed to connect to Plex server: '' @ str_error e)],
                    Inl (SystemExit ''1''))
               | Inr username \<Rightarrow>
                   emit [Print (''Successfully authenticated with MyPlex as user: ''
                                @ username)]
                     (case plex_server env of
                        Inl e \<Rightarrow>
                          ([Print (''Failed to connect to Plex server: '' @ str_error e)],
                           Inl (SystemExit ''1''))
                      | Inr friendlyName \<Rightarrow>
                          ([Print (''Successfully connected to Plex server: ''
                                   @ friendlyName)], Inr ()))))"

text \<open>
  Lines 162-176: the choice of the playlist among the search results. The loop reads
  \<^verbatim>\<open>playlist["Name"]\<close> of each result up to the first exact match, so a result
  without a name raises KeyError there. The answer \<open>None\<close> is the return of False on
  an empty result.
\<close>

fun exact_match_pm :: "env \<Rightarrow> string \<Rightarrow> playlist list \<Rightarrow> exn + playlist option" where
  "exact_match_pm env playlist_name [] = Inr None"
| "exact_match_pm env playlist_name (playlist # rest) =
     (case pl_Name playlist of
        None \<Rightarrow> Inl (KeyError ''Name'')
      | Some n \<Rightarrow>
          if str_lower env n = str_lower env playlist_name then Inr (Some playlist)
          else exact_match_pm env playlist_name rest)"

definition select_playlist_pm ::
  "env \<Rightarrow> string \<Rightarrow> playlist list \<Rightarrow> event list \<times> (exn + playlist option)" where
  "select_playlist_pm env playlist_name playlists =
     (case playlists of
        [] \<Rightarrow>
          ([Print (''No playlist found with name '' @ [CHR 0x27] @ playlist_name
                   @ [CHR 0x27])], Inr None)
      | first # _ \<Rightarrow>
          (case exact_match_pm env playlist_name playlists of
             Inl e \<Rightarrow> ([], Inl e)
           | Inr (Some target_playlist) \<Rightarrow>
               (case pl_Name target_playlist of
                  None \<Rightarrow> ([], Inl (KeyError ''Name''))
                | Some n \<Rightarrow> ([Print (''Found playlist: '' @ n)], Inr (Some target_playlist)))
           | Inr None \<Rightarrow>
               (case pl_Name first of
                  None \<Rightarrow> ([], Inl (KeyError ''Name''))
                | Some n \<Rightarrow>
                    ([Print (''Exact match not found, using playlist: '' @ n)],
                     Inr (Some first)))))"

text \<open>
  Lines 159-185: reading the source. The answer \<open>None\<close> is a return of False (no search
  result, or no item); otherwise the chosen playlist and its items.
\<close>

definition reading_source_pm ::
  "env \<Rightarrow> string \<Rightarrow> event list \<times> (exn + (playlist \<times> jf_item list) option)" where
  "reading_source_pm env playlist_name =
     emit [Print (''Searching for playlist '' @ [CHR 0x27] @ playlist_name @ [CHR 0x27]
                  @ '' in Jellyfin...'')]
       (case search_playlists env of
          (t, Inl e) \<Rightarrow> (t, Inl e)
        | (t, Inr playlists) \<Rightarrow>
            emit t
              (case select_playlist_pm env playlist_name playlists of
                 (t', Inl e) \<Rightarrow> (t', Inl e)
               | (t', Inr None) \<Rightarrow> (t', Inr None)
               | (t', Inr (Some target_playlist)) \<Rightarrow>
                   emit (t' @ [Print ''Retrieving playlist items...''])
                     (case pl_Id target_playlist of
                        None \<Rightarrow> ([], Inl (KeyError ''Id''))
                      | Some pid \<Rightarrow>
                          (case get_playlist_items_pm env pid of
                             (t'', Inl e) \<Rightarrow> (t'', Inl e)
                           | (t'', Inr jellyfin_items) \<Rightarrow>
                               emit t''
                                 (if jellyfin_items = []
                                  then ([Print ''Playlist is empty or could not retrieve items''],
                                        Inr None)
                                  else ([Print (''Found '' @ str_nat (length jellyfin_items)
                                                @ '' items in Jellyfin playlist'')],
                                        Inr (Some (target_playlist, jellyfin_items))))))))"

text \<open>Lines 187-207: the loop over the items.\<close>

fun items_loop_pm ::
  "env \<Rightarrow> jf_item list \<Rightarrow> plex_item list \<Rightarrow> string list
   \<Rightarrow> event list \<times> (plex_item list \<times> string list)" where
  "items_loop_pm env [] plex_items not_found_items = ([], (plex_items, not_found_items))"
| "items_loop_pm env (item # rest) plex_items not_found_items =
     (case truthy (media_source_path item) of
        None \<Rightarrow>
          emit [Print (''No file path found for item: '' @ item_name item)]
            (items_loop_pm env rest plex_items (not_found_items @ [item_name item]))
      | Some file_path \<Rightarrow>
          (case find_media_by_path_pm env file_path of
             (t, Some plex_item) \<Rightarrow>
               emit (t @ [Print (''Found: '' @ item_name item)])
                 (items_loop_pm env rest (plex_items @ [plex_item]) not_found_items)
           | (t, None) \<Rightarrow>
               emit (t @ [Print (''Not found in Plex: '' @ item_name item @ '' (path: ''
                                 @ file_path @ '')'')])
                 (items_loop_pm env rest plex_items (not_found_items @ [item_name item]))))"

text \<open>Lines 209-229: the gate, the report of the items not found, the creation.\<close>

definition deciding_pm ::
  "env \<Rightarrow> string \<Rightarrow> playlist \<Rightarrow> jf_item list \<Rightarrow> plex_item list \<Rightarrow> string list
   \<Rightarrow> event list \<times> (exn + bool)" where
  "deciding_pm env playlist_name target_playlist jellyfin_items plex_items not_found_items =
     (if plex_items = []
      then ([Print ''No matching items found in Plex. Cannot create playlist.''], Inr False)
      else
        emit (Print ([CHR 0x0A] @ ''Found '' @ str_nat (length plex_items)
                     @ '' matching items in Plex'')
              # (if not_found_items \<noteq> []
                 then Print (''Could not find '' @ str_nat (length not_found_items)
                             @ '' items in Plex:'')
                      # map (\<lambda>item_name. Print (''  - '' @ item_name)) not_found_items
                 else []))
          (case pl_Name target_playlist of
             None \<Rightarrow> ([], Inl (KeyError ''Name''))
           | Some n \<Rightarrow>
               (case create_playlist_pm env (n @ '' (from Jellyfin)'') plex_items of
                  (t, success) \<Rightarrow>
                    emit t
                      (if success
                       then ([Print ([CHR 0x0A] @ ''Successfully migrated playlist ''
                                     @ [CHR 0x27] @ playlist_name @ [CHR 0x27]
                                     @ '' to Plex!''),
                              Print (''   Plex playlist name: '' @ [CHR 0x27] @ n
                                     @ '' (from Jellyfin)'' @ [CHR 0x27]),
                              Print (''   Items migrated: '' @ str_nat (length plex_items)
                                     @ ''/'' @ str_nat (length jellyfin_items))],
                             Inr True)
                       else ([Print ([CHR 0x0A] @ ''Failed to create playlist in Plex'')],
                             Inr False)))))"

definition migrate_playlist_pm :: "env \<Rightarrow> string \<Rightarrow> event list \<times> (exn + bool)" where
  "migrate_playlist_pm env playlist_name =
     (case connecting_pm env playlist_name of
        (t0, Inl e) \<Rightarrow> (t0, Inl e)
      | (t0, Inr _) \<Rightarrow>
          emit t0
            (case reading_source_pm env playlist_name of
               (t, Inl e) \<Rightarrow> (t, Inl e)
             | (t, Inr None) \<Rightarrow> (t, Inr False)
             | (t, Inr (Some (target_playlist, jellyfin_items))) \<Rightarrow>
                 emit t
                   (case items_loop_pm env jellyfin_items [] [] of
                      (t', (plex_items, not_found_items)) \<Rightarrow>
                        emit t'
                          (deciding_pm env playlist_name target_playlist jellyfin_items
                             plex_items not_found_items))))"

subsection \<open>migrate\_playlist/cli.py\<close>

text \<open>
  \<^verbatim>\<open>find_plex_item\<close>: per section, the first result of
  \<^verbatim>\<open>section.search(filename=path)\<close>; a search that raises is skipped without a
  message; \<^verbatim>\<open>sections()\<close> raising is not caught.
\<close>

fun search_sections_cli ::
  "string \<Rightarrow> library_section list \<Rightarrow> event list \<times> plex_item option" where
  "search_sections_cli path [] = ([], None)"
| "search_sections_cli path (sect # rest) =
     emit [PlexSearch (sec_title sect) path]
       (case sec_search_filename sect path of
          Inl e \<Rightarrow> search_sections_cli path rest
        | Inr [] \<Rightarrow> search_sections_cli path rest
        | Inr (result # _) \<Rightarrow> ([], Some result))"

definition find_plex_item :: "env \<Rightarrow> string \<Rightarrow> event list \<times> (exn + plex_item option)" where
  "find_plex_item env path =
     emit [PlexSections]
       (case plex_sections env of
          Inl e \<Rightarrow> ([], Inl (Raised e))
        | Inr sections \<Rightarrow>
            (case search_sections_cli path sections of (t, r) \<Rightarrow> (t, Inr r)))"

text \<open>
  The function \<^verbatim>\<open>migrate_playlist\<close>. Lines 55-67: the user id, the playlists, the
  first playlist whose name equals the requested one, its items, the Plex connection.
  Every exception of these calls leaves the function; a playlist that is not found
  raises SystemExit.
\<close>

definition reading_source_cli :: "env \<Rightarrow> string \<Rightarrow> exn + jf_item list" where
  "reading_source_cli env name =
     (case jf_users_me env of
        Inl e \<Rightarrow> Inl (Raised e)
      | Inr user_id \<Rightarrow>
          (case jf_playlists env of
             Inl e \<Rightarrow> Inl (Raised e)
           | Inr playlists \<Rightarrow>
               (case find (\<lambda>p. pl_Name p = Some name) playlists of
                  None \<Rightarrow>
                    Inl (SystemExit (''Playlist '' @ [CHR 0x27] @ name @ [CHR 0x27]
                                     @ '' not found on Jellyfin''))
                | Some playlist \<Rightarrow>
                    (case pl_Id playlist of
                       None \<Rightarrow> Inl (KeyError ''Id'')
                     | Some pid \<Rightarrow>
                         (case jf_playlist_items env pid of
                            Inl e \<Rightarrow> Inl (Raised e)
                          | Inr items \<Rightarrow>
                              (case plex_account env of
                                 Inl e \<Rightarrow> Inl (Raised e)
                               | Inr account \<Rightarrow>
                                   (case plex_server env of
                                      Inl e \<Rightarrow> Inl (Raised e)
                                    | Inr plex \<Rightarrow> Inr items)))))))"

text \<open>Lines 68-77: the loop over the items, reading the key \<open>Path\<close> of the item itself.\<close>

fun items_loop_cli ::
  "env \<Rightarrow> jf_item list \<Rightarrow> plex_item list \<Rightarrow> event list \<times> (exn + plex_item list)" where
  "items_loop_cli env [] plex_items = ([], Inr plex_items)"
| "items_loop_cli env (item # rest) plex_items =
     (case truthy (it_Path item) of
        None \<Rightarrow> items_loop_cli env rest plex_items
      | Some path \<Rightarrow>
          (case find_plex_item env path of
             (t, Inl e) \<Rightarrow> (t, Inl e)
           | (t, Inr (Some plex_item)) \<Rightarrow>
               emit t (items_loop_cli env rest (plex_items @ [plex_item]))
           | (t, Inr None) \<Rightarrow>
               emit (t @ [PrintErr (''Warning: could not find '' @ [CHR 0x27] @ path
                                    @ [CHR 0x27] @ '' in Plex'')])
                 (items_loop_cli env rest plex_items)))"

text \<open>Lines 79-83: the gate and the creation call, whose exception is not caught.\<close>

definition deciding_cli ::
  "env \<Rightarrow> string \<Rightarrow> plex_item list \<Rightarrow> event list \<times> (exn + unit)" where
  "deciding_cli env name plex_items =
     (if plex_items = []
      then ([], Inl (SystemExit ''No matching items found in Plex''))
      else
        emit [PlexCreate name plex_items]
          (case plex_createPlaylist env name plex_items of
             Inl e \<Rightarrow> ([], Inl (Raised e))
           | Inr playlist \<Rightarrow>
               ([Print (''Created playlist '' @ [CHR 0x27] @ name @ [CHR 0x27]
                        @ '' in Plex with '' @ str_nat (length plex_items) @ '' items'')],
                Inr ())))"

definition migrate_playlist_cli :: "env \<Rightarrow> string \<Rightarrow> event list \<times> (exn + unit)" where
  "migrate_playlist_cli env name =
     (case reading_source_cli env name of
        Inl e \<Rightarrow> ([], Inl e)
      | Inr items \<Rightarrow>
          (case items_loop_cli env items [] of
             (t, Inl e) \<Rightarrow> (t, Inl e)
           | (t, Inr plex_items) \<Rightarrow> emit t (deciding_cli env name plex_items)))"

subsection \<open>What the loops append\<close>

text \<open>
  For one source item, the destination item its loop appends to \<open>plex_items\<close>: the
  answer of the file's lookup for the item's path, and nothing where the item has no
  path or the lookup raises. \<open>missing_entry_mp\<close> is the text
  \<^verbatim>\<open>migrate_playlist.py\<close> appends to \<open>missing_items\<close> for an item it does not match.
\<close>

definition match_of_mp :: "env \<Rightarrow> jf_item \<Rightarrow> plex_item option" where
  "match_of_mp env item =
     (case truthy (media_source_path item) of
        None \<Rightarrow> None
      | Some file_path \<Rightarrow>
          (case snd (find_media_by_path_mp env file_path) of
             Inl e \<Rightarrow> None
           | Inr r \<Rightarrow> r))"

definition missing_entry_mp :: "jf_item \<Rightarrow> string" where
  "missing_entry_mp item =
     (case truthy (media_source_path item) of
        None \<Rightarrow> item_name item
      | Some file_path \<Rightarrow> item_name item @ '' ('' @ file_path @ '')'')"

definition match_of_pm :: "env \<Rightarrow> jf_item \<Rightarrow> plex_item option" where
  "match_of_pm env item =
     (case truthy (media_source_path item) of
        None \<Rightarrow> None
      | Some file_path \<Rightarrow> snd (find_media_by_path_pm env file_path))"

definition match_of_cli :: "env \<Rightarrow> jf_item \<Rightarrow> plex_item option" where
  "match_of_cli env item =
     (case truthy (it_Path item) of
        None \<Rightarrow> None
      | Some path \<Rightarrow>
          (case snd (find_plex_item env path) of
             Inl e \<Rightarrow> None
           | Inr r \<Rightarrow> r))"

subsection \<open>Example data\<close>

text \<open>
  The spec's scenarios as data: the playlist \<open>Road Trip\<close>; the songs \<open>a\<close> and \<open>b\<close>,
  whose files Plex indexes, the song \<open>c\<close> without a media file and the song \<open>x\<close> whose
  file Plex does not index; a library section that indexes the two files and searches
  by exact path; a section whose every call raises; a section that holds nothing; a
  section whose search answers any path with an entry indexed under a longer path; the
  environment made of a list of sections and of the playlist's items; and an
  environment with a second playlist, \<open>Jazz\<close>, listed before \<open>Road Trip\<close>.
\<close>

definition track_a :: plex_item where
  "track_a = \<lparr>pi_title = ''a'', pi_media = Some [[''/media/a.mp3'']]\<rparr>"

definition track_b :: plex_item where
  "track_b = \<lparr>pi_title = ''b'', pi_media = Some [[''/media/b.mp3'']]\<rparr>"

definition track_a_bak :: plex_item where
  "track_a_bak = \<lparr>pi_title = ''a (backup)'', pi_media = Some [[''/media/a.mp3.bak'']]\<rparr>"

definition exact_search :: "plex_item list \<Rightarrow> string \<Rightarrow> server_error + plex_item list" where
  "exact_search items p = Inr (filter (part_file_equals p) items)"

definition music :: library_section where
  "music = \<lparr>sec_title = ''Music'', sec_all = Inr [track_a, track_b],
            sec_search_filepath = exact_search [track_a, track_b],
            sec_search_filename = exact_search [track_a, track_b]\<rparr>"

definition broken :: library_section where
  "broken = \<lparr>sec_title = ''Broken'', sec_all = Inl (OtherError ''timeout''),
             sec_search_filepath = (\<lambda>p. Inl (OtherError ''timeout'')),
             sec_search_filename = (\<lambda>p. Inl (OtherError ''timeout''))\<rparr>"

definition vacant :: library_section where
  "vacant = \<lparr>sec_title = ''Vacant'', sec_all = Inr [],
             sec_search_filepath = (\<lambda>p. Inr []),
             sec_search_filename = (\<lambda>p. Inr [])\<rparr>"

definition loose :: library_section where
  "loose = \<lparr>sec_title = ''Loose'', sec_all = Inr [track_a_bak],
            sec_search_filepath = (\<lambda>p. Inr [track_a_bak]),
            sec_search_filename = (\<lambda>p. Inr [track_a_bak])\<rparr>"

definition road_trip :: playlist where
  "road_trip = \<lparr>pl_Name = Some ''Road Trip'', pl_Id = Some ''42''\<rparr>"

definition song_a :: jf_item where
  "song_a = \<lparr>it_Name = Some ''a'', it_MediaSources = Some [Some ''/media/a.mp3''],
             it_Path = Some ''/media/a.mp3''\<rparr>"

definition song_b :: jf_item where
  "song_b = \<lparr>it_Name = Some ''b'', it_MediaSources = Some [Some ''/media/b.mp3''],
             it_Path = Some ''/media/b.mp3''\<rparr>"

definition song_c :: jf_item where
  "song_c = \<lparr>it_Name = Some ''c'', it_MediaSources = None, it_Path = None\<rparr>"

definition song_x :: jf_item where
  "song_x = \<lparr>it_Name = Some ''x'', it_MediaSources = Some [Some ''/media/x.mp3''],
             it_Path = Some ''/media/x.mp3''\<rparr>"

definition scenario :: "library_section list \<Rightarrow> jf_item list \<Rightarrow> env" where
  "scenario sections items =
     \<lparr>jf_authenticate = Inr ''demo'', jf_users_me = Inr ''u1'',
      jf_playlists = Inr [road_trip],
      jf_playlist_items =
        (\<lambda>pid. if pid = ''42'' then Inr items else Inl (RequestException ''404'')),
      plex_account = Inr ''me'', plex_server = Inr ''plex'',
      plex_sections = Inr sections,
      plex_createPlaylist = (\<lambda>n xs. Inr n),
      str_lower = lower\<rparr>"

definition jazz :: playlist where
  "jazz = \<lparr>pl_Name = Some ''Jazz'', pl_Id = Some ''7''\<rparr>"

definition two_playlists :: env where
  "two_playlists =
     \<lparr>jf_authenticate = Inr ''demo'', jf_users_me = Inr ''u1'',
      jf_playlists = Inr [jazz, road_trip],
      jf_playlist_items =
        (\<lambda>pid. if pid = ''42'' then Inr [song_a, song_c]
               else if pid = ''7'' then Inr [song_x]
               else Inl (RequestException ''404'')),
      plex_account = Inr ''me'', plex_server = Inr ''plex'',
      plex_sections = Inr [music],
      plex_createPlaylist = (\<lambda>n xs. Inr n),
      str_lower = lower\<rparr>"

section \<open>Lemmas on the parts of a run\<close>

subsection \<open>migrate\_playlist.py: where a creation call can come from\<close>

text \<open>
  Only the deciding part issues a creation call, and only on a non-empty list; the loop
  returns the matches of the items in source order.
\<close>

lemma fst_emit [simp]: "fst (emit t m) = t @ fst m"
  by (simp add: emit_def)

lemma snd_emit [simp]: "snd (emit t m) = snd m"
  by (simp add: emit_def)

lemma emit_pair: "emit t (u, r) = (t @ u, r)"
  by (simp add: emit_def)

lemma scan_sections_mp_no_create: "PlexCreate n xs \<notin> set (fst (scan_sections_mp p ss))"
  by (induction ss) (auto split: sum.splits option.splits)

lemma find_media_by_path_mp_no_create: "PlexCreate n xs \<notin> set (fst (find_media_by_path_mp env p))"
  using scan_sections_mp_no_create [of n xs p]
  by (auto simp: find_media_by_path_mp_def case_prod_beta split: sum.splits)

lemma items_loop_mp_no_create: "PlexCreate n xs \<notin> set (fst (items_loop_mp env items p m))"
proof (induction items arbitrary: p m)
  case Nil
  show ?case by simp
next
  case (Cons item rest)
  show ?case
  proof (cases "truthy (media_source_path item)")
    case None
    then show ?thesis using Cons.IH by simp
  next
    case (Some fp)
    obtain t r where f: "find_media_by_path_mp env fp = (t, r)" by (cases "find_media_by_path_mp env fp")
    have nt: "PlexCreate n xs \<notin> set t" using find_media_by_path_mp_no_create [of n xs env fp] f by simp
    show ?thesis using Some f nt Cons.IH
      by (auto split: sum.splits option.splits)
  qed
qed

lemma items_loop_mp_result:
  "snd (items_loop_mp env items p m) = Inr (p', m') \<Longrightarrow>
     p' = p @ List.map_filter (match_of_mp env) items \<and>
     m' = m @ map missing_entry_mp (filter (\<lambda>i. match_of_mp env i = None) items)"
proof (induction items arbitrary: p m)
  case Nil
  then show ?case by (simp add: List.map_filter_simps)
next
  case (Cons item rest)
  show ?case
  proof (cases "truthy (media_source_path item)")
    case None
    then show ?thesis using Cons.prems Cons.IH [of p "m @ [item_name item]"]
      by (simp add: List.map_filter_simps match_of_mp_def missing_entry_mp_def)
  next
    case (Some fp)
    obtain t r where f: "find_media_by_path_mp env fp = (t, r)" by (cases "find_media_by_path_mp env fp")
    show ?thesis
    proof (cases r)
      case (Inl e)
      then show ?thesis using Cons.prems Some f by simp
    next
      case (Inr found)
      show ?thesis
      proof (cases found)
        case None
        then show ?thesis
          using Cons.prems Some f Inr Cons.IH [of p "m @ [item_name item @ '' ('' @ fp @ '')'']"]
          by (simp add: List.map_filter_simps match_of_mp_def missing_entry_mp_def)
      next
        case (Some x)
        then show ?thesis
          using Cons.prems \<open>truthy (media_source_path item) = Some fp\<close> f Inr Cons.IH [of "p @ [x]" m]
          by (simp add: List.map_filter_simps match_of_mp_def missing_entry_mp_def)
      qed
    qed
  qed
qed

lemma reading_source_mp_no_create: "PlexCreate n xs \<notin> set (fst (reading_source_mp env name))"
  by (auto simp: reading_source_mp_def split: sum.splits option.splits)

lemma deciding_mp_create:
  "PlexCreate n xs \<in> set (fst (deciding_mp env nm dry p m)) \<longleftrightarrow>
     (\<not> dry \<and> p \<noteq> [] \<and> n = nm \<and> xs = p)"
  by (auto simp: deciding_mp_def split: sum.splits)

lemma deciding_mp_True: "snd (deciding_mp env nm dry p m) = Inr True \<Longrightarrow> p \<noteq> []"
  by (auto simp: deciding_mp_def split: if_splits)

lemma migrate_playlist_mp_create:
  assumes "PlexCreate n xs \<in> set (fst (migrate_playlist_mp env name dry))"
  shows "\<not> dry \<and> xs \<noteq> [] \<and>
         (\<exists>items m. snd (reading_source_mp env name) = Inr (Some (n, items)) \<and>
                    snd (items_loop_mp env items [] []) = Inr (xs, m))"
proof -
  obtain t r where rd: "reading_source_mp env name = (t, r)"
    by (cases "reading_source_mp env name")
  have nt: "PlexCreate n xs \<notin> set t"
    using reading_source_mp_no_create [of n xs env name] rd by simp
  show ?thesis
  proof (cases r)
    case (Inl e)
    then show ?thesis using assms rd nt by (simp add: migrate_playlist_mp_def)
  next
    case (Inr v)
    show ?thesis
    proof (cases v)
      case None
      then show ?thesis using assms rd nt Inr by (simp add: migrate_playlist_mp_def)
    next
      case (Some ni)
      obtain nm items where ni: "ni = (nm, items)" by (cases ni)
      obtain t' r' where lp: "items_loop_mp env items [] [] = (t', r')"
        by (cases "items_loop_mp env items [] []")
      have nt': "PlexCreate n xs \<notin> set t'"
        using items_loop_mp_no_create [of n xs env items "[]" "[]"] lp by simp
      show ?thesis
      proof (cases r')
        case (Inl e)
        then show ?thesis using assms rd nt Inr Some ni lp nt'
          by (simp add: migrate_playlist_mp_def)
      next
        case (Inr pm)
        obtain p m where pm: "pm = (p, m)" by (cases pm)
        have "PlexCreate n xs \<in> set (fst (deciding_mp env nm dry p m))"
          using assms rd nt \<open>r = Inr v\<close> Some ni lp nt' Inr pm
          by (simp add: migrate_playlist_mp_def)
        then have "\<not> dry \<and> p \<noteq> [] \<and> n = nm \<and> xs = p"
          by (simp add: deciding_mp_create)
        then show ?thesis using rd \<open>r = Inr v\<close> Some ni lp Inr pm by simp
      qed
    qed
  qed
qed

lemma migrate_playlist_mp_True:
  assumes "snd (migrate_playlist_mp env name dry) = Inr True"
  shows "\<exists>nm items p m. snd (reading_source_mp env name) = Inr (Some (nm, items)) \<and>
                    snd (items_loop_mp env items [] []) = Inr (p, m) \<and> p \<noteq> []"
proof -
  obtain t r where rd: "reading_source_mp env name = (t, r)"
    by (cases "reading_source_mp env name")
  show ?thesis
  proof (cases r)
    case (Inl e)
    then show ?thesis using assms rd by (simp add: migrate_playlist_mp_def)
  next
    case (Inr v)
    show ?thesis
    proof (cases v)
      case None
      then show ?thesis using assms rd Inr by (simp add: migrate_playlist_mp_def)
    next
      case (Some ni)
      obtain nm items where ni: "ni = (nm, items)" by (cases ni)
      obtain t' r' where lp: "items_loop_mp env items [] [] = (t', r')"
        by (cases "items_loop_mp env items [] []")
      show ?thesis
      proof (cases r')
        case (Inl e)
        then show ?thesis using assms rd Inr Some ni lp
          by (simp add: migrate_playlist_mp_def)
      next
        case (Inr pm)
        obtain p m where pm: "pm = (p, m)" by (cases pm)
        have "snd (deciding_mp env nm dry p m) = Inr True"
          using assms rd \<open>r = Inr v\<close> Some ni lp Inr pm
          by (simp add: migrate_playlist_mp_def)
        then have "p \<noteq> []" by (rule deciding_mp_True)
        then show ?thesis using rd \<open>r = Inr v\<close> Some ni lp Inr pm by simp
      qed
    qed
  qed
qed

subsection \<open>playlist\_migrator.py and cli.py: the same facts\<close>

lemma search_libraries_pm_no_create: "PlexCreate n xs \<notin> set (fst (search_libraries_pm p ss))"
  by (induction ss) (auto split: sum.splits list.splits)

lemma find_media_by_path_pm_no_create: "PlexCreate n xs \<notin> set (fst (find_media_by_path_pm env p))"
  using search_libraries_pm_no_create [of n xs p]
  by (auto simp: find_media_by_path_pm_def split: sum.splits)

lemma items_loop_pm_no_create: "PlexCreate n xs \<notin> set (fst (items_loop_pm env items p m))"
proof (induction items arbitrary: p m)
  case Nil
  show ?case by simp
next
  case (Cons item rest)
  show ?case
  proof (cases "truthy (media_source_path item)")
    case None
    then show ?thesis using Cons.IH by simp
  next
    case (Some fp)
    obtain t r where f: "find_media_by_path_pm env fp = (t, r)"
      by (cases "find_media_by_path_pm env fp")
    have nt: "PlexCreate n xs \<notin> set t"
      using find_media_by_path_pm_no_create [of n xs env fp] f by simp
    show ?thesis using Some f nt Cons.IH
      by (auto split: option.splits)
  qed
qed

lemma items_loop_pm_result:
  "snd (items_loop_pm env items p m) =
     (p @ List.map_filter (match_of_pm env) items,
      m @ map item_name (filter (\<lambda>i. match_of_pm env i = None) items))"
proof (induction items arbitrary: p m)
  case Nil
  show ?case by (simp add: List.map_filter_simps)
next
  case (Cons item rest)
  show ?case
  proof (cases "truthy (media_source_path item)")
    case None
    then show ?thesis using Cons.IH [of p "m @ [item_name item]"]
      by (simp add: List.map_filter_simps match_of_pm_def)
  next
    case (Some fp)
    obtain t r where f: "find_media_by_path_pm env fp = (t, r)"
      by (cases "find_media_by_path_pm env fp")
    show ?thesis
    proof (cases r)
      case None
      then show ?thesis
        using Some f Cons.IH [of p "m @ [item_name item]"]
        by (simp add: List.map_filter_simps match_of_pm_def)
    next
      case (Some x)
      then show ?thesis
        using \<open>truthy (media_source_path item) = Some fp\<close> f Cons.IH [of "p @ [x]" m]
        by (simp add: List.map_filter_simps match_of_pm_def)
    qed
  qed
qed

lemma search_sections_cli_no_create: "PlexCreate n xs \<notin> set (fst (search_sections_cli p ss))"
  by (induction ss) (auto split: sum.splits list.splits)

lemma find_plex_item_no_create: "PlexCreate n xs \<notin> set (fst (find_plex_item env p))"
  using search_sections_cli_no_create [of n xs p]
  by (auto simp: find_plex_item_def case_prod_beta split: sum.splits)

lemma items_loop_cli_no_create: "PlexCreate n xs \<notin> set (fst (items_loop_cli env items p))"
proof (induction items arbitrary: p)
  case Nil
  show ?case by simp
next
  case (Cons item rest)
  show ?case
  proof (cases "truthy (it_Path item)")
    case None
    then show ?thesis using Cons.IH by simp
  next
    case (Some fp)
    obtain t r where f: "find_plex_item env fp = (t, r)"
      by (cases "find_plex_item env fp")
    have nt: "PlexCreate n xs \<notin> set t"
      using find_plex_item_no_create [of n xs env fp] f by simp
    show ?thesis using Some f nt Cons.IH
      by (auto split: sum.splits option.splits)
  qed
qed

lemma items_loop_cli_result:
  "snd (items_loop_cli env items p) = Inr p' \<Longrightarrow>
     p' = p @ List.map_filter (match_of_cli env) items"
proof (induction items arbitrary: p)
  case Nil
  then show ?case by (simp add: List.map_filter_simps)
next
  case (Cons item rest)
  show ?case
  proof (cases "truthy (it_Path item)")
    case None
    then show ?thesis using Cons.prems Cons.IH [of p]
      by (simp add: List.map_filter_simps match_of_cli_def)
  next
    case (Some fp)
    obtain t r where f: "find_plex_item env fp = (t, r)"
      by (cases "find_plex_item env fp")
    show ?thesis
    proof (cases r)
      case (Inl e)
      then show ?thesis using Cons.prems Some f by simp
    next
      case (Inr found)
      show ?thesis
      proof (cases found)
        case None
        then show ?thesis
          using Cons.prems Some f Inr Cons.IH [of p]
          by (simp add: List.map_filter_simps match_of_cli_def)
      next
        case (Some x)
        then show ?thesis
          using Cons.prems \<open>truthy (it_Path item) = Some fp\<close> f Inr Cons.IH [of "p @ [x]"]
          by (simp add: List.map_filter_simps match_of_cli_def)
      qed
    qed
  qed
qed

lemma connecting_pm_no_create: "PlexCreate n xs \<notin> set (fst (connecting_pm env name))"
  by (auto simp: connecting_pm_def split: sum.splits server_error.splits)

lemma select_playlist_pm_no_create:
  "PlexCreate n xs \<notin> set (fst (select_playlist_pm env name ps))"
  by (auto simp: select_playlist_pm_def split: sum.splits option.splits list.splits)

lemma reading_source_pm_no_create: "PlexCreate n xs \<notin> set (fst (reading_source_pm env name))"
proof -
  have a: "PlexCreate n xs \<notin> set (fst (search_playlists env))"
    by (auto simp: search_playlists_def split: sum.splits server_error.splits)
  have b: "\<And>pid. PlexCreate n xs \<notin> set (fst (get_playlist_items_pm env pid))"
    by (auto simp: get_playlist_items_pm_def split: sum.splits server_error.splits)
  show ?thesis
    using a b select_playlist_pm_no_create [of n xs env name]
    by (auto simp: reading_source_pm_def case_prod_beta split: sum.splits option.splits)
qed

lemma create_playlist_pm_create:
  "PlexCreate n xs \<in> set (fst (create_playlist_pm env nm p)) \<longleftrightarrow> (p \<noteq> [] \<and> n = nm \<and> xs = p)"
  by (auto simp: create_playlist_pm_def split: sum.splits)

lemma deciding_pm_create:
  "PlexCreate n xs \<in> set (fst (deciding_pm env pn target items p m)) \<longleftrightarrow>
     (p \<noteq> [] \<and> xs = p \<and> (\<exists>nm. pl_Name target = Some nm \<and> n = nm @ '' (from Jellyfin)''))"
  by (auto simp: deciding_pm_def case_prod_beta create_playlist_pm_create split: option.splits)

lemma deciding_pm_True: "snd (deciding_pm env pn target items p m) = Inr True \<Longrightarrow> p \<noteq> []"
  by (auto simp: deciding_pm_def split: if_splits)

lemma deciding_cli_create:
  "PlexCreate n xs \<in> set (fst (deciding_cli env nm p)) \<longleftrightarrow> (p \<noteq> [] \<and> n = nm \<and> xs = p)"
  by (auto simp: deciding_cli_def split: sum.splits)

lemma deciding_cli_returns: "snd (deciding_cli env nm p) = Inr u \<Longrightarrow> p \<noteq> []"
  by (auto simp: deciding_cli_def split: if_splits)

lemma migrate_playlist_pm_create:
  assumes "PlexCreate n xs \<in> set (fst (migrate_playlist_pm env name))"
  shows "xs \<noteq> [] \<and>
         (\<exists>target items nm. snd (reading_source_pm env name) = Inr (Some (target, items)) \<and>
            fst (snd (items_loop_pm env items [] [])) = xs \<and>
            pl_Name target = Some nm \<and> n = nm @ '' (from Jellyfin)'')"
proof -
  obtain t0 r0 where cn: "connecting_pm env name = (t0, r0)"
    by (cases "connecting_pm env name")
  have nt0: "PlexCreate n xs \<notin> set t0"
    using connecting_pm_no_create [of n xs env name] cn by simp
  obtain t r where rd: "reading_source_pm env name = (t, r)"
    by (cases "reading_source_pm env name")
  have nt: "PlexCreate n xs \<notin> set t"
    using reading_source_pm_no_create [of n xs env name] rd by simp
  show ?thesis
  proof (cases r0)
    case (Inl e)
    then show ?thesis using assms cn nt0 by (simp add: migrate_playlist_pm_def)
  next
    case c: (Inr u)
    show ?thesis
    proof (cases r)
      case (Inl e)
      then show ?thesis using assms cn nt0 c rd nt by (simp add: migrate_playlist_pm_def)
    next
      case (Inr v)
      show ?thesis
      proof (cases v)
        case None
        then show ?thesis using assms cn nt0 c rd nt Inr by (simp add: migrate_playlist_pm_def)
      next
        case (Some ti)
        obtain target items where ti: "ti = (target, items)" by (cases ti)
        obtain t' p m where lp: "items_loop_pm env items [] [] = (t', (p, m))"
          by (cases "items_loop_pm env items [] []") auto
        have nt': "PlexCreate n xs \<notin> set t'"
          using items_loop_pm_no_create [of n xs env items "[]" "[]"] lp by simp
        have "PlexCreate n xs \<in> set (fst (deciding_pm env name target items p m))"
          using assms cn nt0 c rd nt Inr Some ti lp nt'
          by (simp add: migrate_playlist_pm_def)
        then have "p \<noteq> [] \<and> xs = p \<and>
                   (\<exists>nm. pl_Name target = Some nm \<and> n = nm @ '' (from Jellyfin)'')"
          by (simp add: deciding_pm_create)
        then show ?thesis using rd Inr Some ti lp by auto
      qed
    qed
  qed
qed

lemma migrate_playlist_pm_True:
  assumes "snd (migrate_playlist_pm env name) = Inr True"
  shows "\<exists>target items. snd (reading_source_pm env name) = Inr (Some (target, items)) \<and>
           fst (snd (items_loop_pm env items [] [])) \<noteq> []"
proof -
  obtain t0 r0 where cn: "connecting_pm env name = (t0, r0)"
    by (cases "connecting_pm env name")
  obtain t r where rd: "reading_source_pm env name = (t, r)"
    by (cases "reading_source_pm env name")
  show ?thesis
  proof (cases r0)
    case (Inl e)
    then show ?thesis using assms cn by (simp add: migrate_playlist_pm_def)
  next
    case c: (Inr u)
    show ?thesis
    proof (cases r)
      case (Inl e)
      then show ?thesis using assms cn c rd by (simp add: migrate_playlist_pm_def)
    next
      case (Inr v)
      show ?thesis
      proof (cases v)
        case None
        then show ?thesis using assms cn c rd Inr by (simp add: migrate_playlist_pm_def)
      next
        case (Some ti)
        obtain target items where ti: "ti = (target, items)" by (cases ti)
        obtain t' p m where lp: "items_loop_pm env items [] [] = (t', (p, m))"
          by (cases "items_loop_pm env items [] []") auto
        have "snd (deciding_pm env name target items p m) = Inr True"
          using assms cn c rd Inr Some ti lp
          by (simp add: migrate_playlist_pm_def)
        then have "p \<noteq> []" by (rule deciding_pm_True)
        then show ?thesis using rd Inr Some ti lp by auto
      qed
    qed
  qed
qed

lemma migrate_playlist_cli_create:
  assumes "PlexCreate n xs \<in> set (fst (migrate_playlist_cli env name))"
  shows "n = name \<and> xs \<noteq> [] \<and>
         (\<exists>items. reading_source_cli env name = Inr items \<and>
                  snd (items_loop_cli env items []) = Inr xs)"
proof (cases "reading_source_cli env name")
  case (Inl e)
  then show ?thesis using assms by (simp add: migrate_playlist_cli_def)
next
  case (Inr items)
  obtain t r where lp: "items_loop_cli env items [] = (t, r)"
    by (cases "items_loop_cli env items []")
  have nt: "PlexCreate n xs \<notin> set t"
    using items_loop_cli_no_create [of n xs env items "[]"] lp by simp
  show ?thesis
  proof (cases r)
    case (Inl e)
    then show ?thesis using assms Inr lp nt by (simp add: migrate_playlist_cli_def)
  next
    case p: (Inr p)
    have "PlexCreate n xs \<in> set (fst (deciding_cli env name p))"
      using assms Inr lp nt p by (simp add: migrate_playlist_cli_def)
    then have "p \<noteq> [] \<and> n = name \<and> xs = p" by (simp add: deciding_cli_create)
    then show ?thesis using Inr lp p by simp
  qed
qed

lemma migrate_playlist_cli_returns:
  assumes "snd (migrate_playlist_cli env name) = Inr u"
  shows "\<exists>items p. reading_source_cli env name = Inr items \<and>
           snd (items_loop_cli env items []) = Inr p \<and> p \<noteq> []"
proof (cases "reading_source_cli env name")
  case (Inl e)
  then show ?thesis using assms by (simp add: migrate_playlist_cli_def)
next
  case (Inr items)
  obtain t r where lp: "items_loop_cli env items [] = (t, r)"
    by (cases "items_loop_cli env items []")
  show ?thesis
  proof (cases r)
    case (Inl e)
    then show ?thesis using assms Inr lp by (simp add: migrate_playlist_cli_def)
  next
    case p: (Inr p)
    have "snd (deciding_cli env name p) = Inr u"
      using assms Inr lp p by (simp add: migrate_playlist_cli_def)
    then have "p \<noteq> []" by (rule deciding_cli_returns)
    then show ?thesis using Inr lp p by simp
  qed
qed

subsection \<open>Evaluation on the example data\<close>

lemma no_create_iff: "filter is_create t = [] \<longleftrightarrow> (\<forall>n xs. PlexCreate n xs \<notin> set t)"
proof (induction t)
  case Nil
  show ?case by simp
next
  case (Cons e t)
  then show ?case by (cases e) auto
qed

text \<open>The definitions to unfold when a run is evaluated on the example data.\<close>

lemmas ex_defs = scenario_def two_playlists_def jazz_def music_def broken_def vacant_def loose_def road_trip_def
  song_a_def song_b_def song_c_def song_x_def track_a_def track_b_def track_a_bak_def
  exact_search_def
lemmas run_defs = emit_def truthy_def media_source_path_def item_name_def lower_def lower_char_def
  find_playlist_by_name_def part_file_equals_def find_media_by_path_mp_def reading_source_mp_def
  deciding_mp_def migrate_playlist_mp_def search_playlists_def get_playlist_items_pm_def
  find_media_by_path_pm_def create_playlist_pm_def connecting_pm_def select_playlist_pm_def
  reading_source_pm_def deciding_pm_def migrate_playlist_pm_def find_plex_item_def
  reading_source_cli_def deciding_cli_def migrate_playlist_cli_def
  match_of_mp_def match_of_pm_def match_of_cli_def missing_entry_mp_def
  char_of_def bit_Suc_0_iff

subsection \<open>Lookups over the list of sections\<close>

lemma find_media_by_path_mp_sections:
  "plex_sections env = Inr ss \<Longrightarrow>
     snd (find_media_by_path_mp env p) = Inr (snd (scan_sections_mp p ss))"
  by (simp add: find_media_by_path_mp_def case_prod_beta)

lemma find_media_by_path_mp_raises:
  "plex_sections env = Inl e \<Longrightarrow> snd (find_media_by_path_mp env p) = Inl (Raised e)"
  by (simp add: find_media_by_path_mp_def)

lemma items_loop_mp_returns:
  "plex_sections env = Inr ss \<Longrightarrow> \<exists>p' m'. snd (items_loop_mp env items p m) = Inr (p', m')"
proof (induction items arbitrary: p m)
  case Nil
  show ?case by simp
next
  case (Cons item rest)
  show ?case
  proof (cases "truthy (media_source_path item)")
    case None
    then show ?thesis using Cons.IH [OF Cons.prems] by simp
  next
    case (Some fp)
    obtain t r where f: "find_media_by_path_mp env fp = (t, r)"
      by (cases "find_media_by_path_mp env fp")
    have "r = Inr (snd (scan_sections_mp fp ss))"
      using find_media_by_path_mp_sections [OF Cons.prems, of fp] f by simp
    then show ?thesis using Some f Cons.IH [OF Cons.prems]
      by (cases "snd (scan_sections_mp fp ss)") simp_all
  qed
qed

lemma match_of_mp_sections:
  "match_of_mp env item = Some x \<Longrightarrow> \<exists>ss. plex_sections env = Inr ss"
proof (cases "plex_sections env")
  case (Inl e)
  assume "match_of_mp env item = Some x"
  then show ?thesis using find_media_by_path_mp_raises [OF Inl]
    by (simp add: match_of_mp_def split: option.splits)
next
  case (Inr ss)
  then show ?thesis by simp
qed

lemma map_filter_not_Nil: "List.map_filter f xs \<noteq> [] \<Longrightarrow> \<exists>x y. x \<in> set xs \<and> f x = Some y"
  by (induction xs) (auto simp: List.map_filter_simps split: option.splits)

lemma reading_source_mp_name:
  "snd (reading_source_mp env name) = Inr (Some (nm, items)) \<Longrightarrow>
     \<exists>pl. find_playlist_by_name env name = Inr (Some pl) \<and> pl_Name pl = Some nm"
  by (auto simp: reading_source_mp_def split: sum.splits option.splits)

lemma scan_sections_mp_skip_failing:
  "snd (scan_sections_mp p ss) = snd (scan_sections_mp p (filter (\<lambda>s. \<not> isl (sec_all s)) ss))"
  by (induction ss) (auto split: sum.splits option.splits)

lemma search_libraries_pm_skip_failing:
  "snd (search_libraries_pm p ss)
     = snd (search_libraries_pm p (filter (\<lambda>s. \<not> isl (sec_search_filepath s p)) ss))"
  by (induction ss) (auto split: sum.splits list.splits)

lemma search_sections_cli_skip_failing:
  "snd (search_sections_cli p ss)
     = snd (search_sections_cli p (filter (\<lambda>s. \<not> isl (sec_search_filename s p)) ss))"
  by (induction ss) (auto split: sum.splits list.splits)

lemma search_libraries_pm_silent: "filter is_output (fst (search_libraries_pm p ss)) = []"
  by (induction ss) (auto split: sum.splits list.splits)

lemma search_sections_cli_silent: "filter is_output (fst (search_sections_cli p ss)) = []"
  by (induction ss) (auto split: sum.splits list.splits)

lemma scan_sections_mp_no_hit:
  "(\<forall>s\<in>set ss. case sec_all s of Inl e \<Rightarrow> True
                     | Inr items \<Rightarrow> find (part_file_equals p) items = None) \<Longrightarrow>
     snd (scan_sections_mp p ss) = None"
  by (induction ss) (auto split: sum.splits)

lemma search_libraries_pm_no_hit:
  "(\<forall>s\<in>set ss. case sec_search_filepath s p of Inl e \<Rightarrow> True | Inr results \<Rightarrow> results = []) \<Longrightarrow>
     snd (search_libraries_pm p ss) = None"
  by (induction ss) (auto split: sum.splits)

lemma search_sections_cli_no_hit:
  "(\<forall>s\<in>set ss. case sec_search_filename s p of Inl e \<Rightarrow> True | Inr results \<Rightarrow> results = []) \<Longrightarrow>
     snd (search_sections_cli p ss) = None"
  by (induction ss) (auto split: sum.splits)

lemma find_media_by_path_pm_sections:
  "plex_sections env = Inr ss \<Longrightarrow>
     snd (find_media_by_path_pm env p) = snd (search_libraries_pm p ss)"
  by (simp add: find_media_by_path_pm_def)

lemma find_plex_item_sections:
  "plex_sections env = Inr ss \<Longrightarrow>
     snd (find_plex_item env p) = Inr (snd (search_sections_cli p ss))"
  by (simp add: find_plex_item_def case_prod_beta)

subsection \<open>The report of unmatched items\<close>

lemma deciding_mp_lists_missing:
  "x \<in> set m \<Longrightarrow> Log WARNING (''  - '' @ x) \<in> set (fst (deciding_mp env nm dry p m))"
  by (auto simp: deciding_mp_def)

lemma deciding_mp_ignores_missing:
  "snd (deciding_mp env nm dry p m) = snd (deciding_mp env nm dry p [])"
  by (simp add: deciding_mp_def)

lemma deciding_pm_lists_not_found:
  "p \<noteq> [] \<Longrightarrow> x \<in> set m \<Longrightarrow>
     Print (''  - '' @ x) \<in> set (fst (deciding_pm env pn target items p m))"
  by (auto simp: deciding_pm_def)

lemma deciding_pm_ignores_not_found:
  "snd (deciding_pm env pn target items p m) = snd (deciding_pm env pn target items p [])"
  by (simp add: deciding_pm_def case_prod_beta split: option.splits)

lemma items_loop_cli_skips_no_path:
  "items_loop_cli env items p
     = items_loop_cli env (filter (\<lambda>i. truthy (it_Path i) \<noteq> None) items) p"
proof (induction items arbitrary: p)
  case Nil
  show ?case by simp
next
  case (Cons item rest)
  show ?case
  proof (cases "truthy (it_Path item)")
    case None
    then show ?thesis using Cons.IH [of p] by simp
  next
    case (Some fp)
    show ?thesis
      using Some Cons.IH
      by (simp split: prod.splits sum.splits option.splits)
  qed
qed

subsection \<open>What a lookup can return\<close>

lemma scan_sections_mp_Some:
  "snd (scan_sections_mp p ss) = Some item \<Longrightarrow>
     part_file_equals p item \<and> (\<exists>s\<in>set ss. \<exists>items. sec_all s = Inr items \<and> item \<in> set items)"
proof (induction ss)
  case Nil
  then show ?case by simp
next
  case (Cons s ss)
  show ?case
  proof (cases "sec_all s")
    case (Inl e)
    then show ?thesis using Cons by simp
  next
    case (Inr items)
    show ?thesis
    proof (cases "find (part_file_equals p) items")
      case None
      then show ?thesis using Cons Inr by simp
    next
      case (Some found)
      then have "part_file_equals p found \<and> found \<in> set items"
        by (auto simp: find_Some_iff)
      then show ?thesis using Cons.prems Inr Some by auto
    qed
  qed
qed

lemma search_libraries_pm_Some:
  "snd (search_libraries_pm p ss) = Some item \<Longrightarrow>
     \<exists>s\<in>set ss. \<exists>rest. sec_search_filepath s p = Inr (item # rest)"
  by (induction ss) (auto split: sum.splits list.splits)

lemma search_sections_cli_Some:
  "snd (search_sections_cli p ss) = Some item \<Longrightarrow>
     \<exists>s\<in>set ss. \<exists>rest. sec_search_filename s p = Inr (item # rest)"
  by (induction ss) (auto split: sum.splits list.splits)

subsection \<open>An item with a path is looked up\<close>

lemma find_media_by_path_mp_asks: "PlexSections \<in> set (fst (find_media_by_path_mp env p))"
  by (simp add: find_media_by_path_mp_def)

lemma find_media_by_path_pm_asks: "PlexSections \<in> set (fst (find_media_by_path_pm env p))"
  by (simp add: find_media_by_path_pm_def)

lemma find_plex_item_asks: "PlexSections \<in> set (fst (find_plex_item env p))"
  by (simp add: find_plex_item_def)

subsection \<open>The first playlist with the requested name\<close>

lemma find_first:
  "(\<forall>q\<in>set before. \<not> P q) \<Longrightarrow> P x \<Longrightarrow> find P (before @ x # after) = Some x"
  by (induction before) auto

lemma exact_match_pm_first:
  "(\<forall>q\<in>set before. \<exists>n. pl_Name q = Some n \<and> str_lower env n \<noteq> str_lower env name) \<Longrightarrow>
     pl_Name target = Some nm \<Longrightarrow> str_lower env nm = str_lower env name \<Longrightarrow>
     exact_match_pm env name (before @ target # after) = Inr (Some target)"
  by (induction before) auto

lemma exact_match_pm_none:
  "(\<forall>q\<in>set ps. \<exists>n. pl_Name q = Some n \<and> str_lower env n \<noteq> str_lower env name) \<Longrightarrow>
     exact_match_pm env name ps = Inr None"
  by (induction ps) auto

lemma select_playlist_pm_found:
  assumes "(\<forall>q\<in>set before. \<exists>n. pl_Name q = Some n \<and> str_lower env n \<noteq> str_lower env name)"
    and "pl_Name target = Some nm" and "str_lower env nm = str_lower env name"
  shows "select_playlist_pm env name (before @ target # after)
           = ([Print (''Found playlist: '' @ nm)], Inr (Some target))"
proof -
  have e: "exact_match_pm env name (before @ target # after) = Inr (Some target)"
    using assms by (rule exact_match_pm_first)
  obtain first rest where "before @ target # after = first # rest"
    by (cases "before @ target # after") auto
  then show ?thesis using e assms(2) by (simp add: select_playlist_pm_def)
qed

lemma select_playlist_pm_fallback:
  assumes "(\<forall>q\<in>set (first # rest). \<exists>n. pl_Name q = Some n
              \<and> str_lower env n \<noteq> str_lower env name)"
    and "pl_Name first = Some nm"
  shows "select_playlist_pm env name (first # rest)
           = ([Print (''Exact match not found, using playlist: '' @ nm)], Inr (Some first))"
proof -
  have "exact_match_pm env name (first # rest) = Inr None"
    using assms(1) by (rule exact_match_pm_none)
  then show ?thesis using assms(2) by (simp add: select_playlist_pm_def)
qed

lemma reading_source_pm_selected:
  assumes "jf_playlists env = Inr playlists"
    and "snd (select_playlist_pm env name playlists) = Inr (Some target)"
    and "pl_Id target = Some pid" and "jf_playlist_items env pid = Inr items"
    and "items \<noteq> []"
  shows "snd (reading_source_pm env name) = Inr (Some (target, items))"
proof -
  obtain t where s: "select_playlist_pm env name playlists = (t, Inr (Some target))"
    using assms(2) by (cases "select_playlist_pm env name playlists") simp
  have sp: "search_playlists env = ([], Inr playlists)"
    using assms(1) by (simp add: search_playlists_def)
  have gi: "get_playlist_items_pm env pid = ([], Inr items)"
    using assms(4) by (simp add: get_playlist_items_pm_def)
  show ?thesis
    using s sp gi assms(3) assms(5) by (simp add: reading_source_pm_def)
qed

lemma reading_source_mp_found:
  assumes "find_playlist_by_name env name = Inr (Some target)"
    and "pl_Name target = Some nm" and "pl_Id target = Some pid"
    and "jf_playlist_items env pid = Inr items"
  shows "snd (reading_source_mp env name) = Inr (Some (nm, items))"
  using assms by (simp add: reading_source_mp_def)

subsection \<open>The first library with a result\<close>

lemma scan_sections_mp_first:
  "(\<forall>q\<in>set before. case sec_all q of Inl e \<Rightarrow> True
                        | Inr items \<Rightarrow> find (part_file_equals p) items = None) \<Longrightarrow>
     sec_all s = Inr items \<Longrightarrow> find (part_file_equals p) items = Some item \<Longrightarrow>
     snd (scan_sections_mp p (before @ s # after)) = Some item"
  by (induction before) (auto split: sum.splits)

lemma search_libraries_pm_first:
  "(\<forall>q\<in>set before. case sec_search_filepath q p of Inl e \<Rightarrow> True
                        | Inr results \<Rightarrow> results = []) \<Longrightarrow>
     sec_search_filepath s p = Inr (item # rest) \<Longrightarrow>
     snd (search_libraries_pm p (before @ s # after)) = Some item"
  by (induction before) (auto split: sum.splits)

lemma search_sections_cli_first:
  "(\<forall>q\<in>set before. case sec_search_filename q p of Inl e \<Rightarrow> True
                        | Inr results \<Rightarrow> results = []) \<Longrightarrow>
     sec_search_filename s p = Inr (item # rest) \<Longrightarrow>
     snd (search_sections_cli p (before @ s # after)) = Some item"
  by (induction before) (auto split: sum.splits)

section \<open>The claims\<close>

subsection \<open>C1: an item without a file path\<close>

text \<open>
  C1, as amended. For an item whose file path is absent no destination query is issued
  and nothing is added to \<open>plex_items\<close>, in each of the three loops and whatever the
  environment holds. \<^verbatim>\<open>migrate_playlist.py\<close> and \<^verbatim>\<open>playlist_migrator.py\<close> return
  it as unmatched at once with the reason: they write the no-file-path message and
  append the item's name to their list of missing items. \<^verbatim>\<open>cli.py\<close> gives no
  result for it: the step for such an item is the loop over the rest of the playlist,
  with no message and no record. An item with a path, in each file, is looked up.
\<close>

theorem no_file_path_skips_search:
  "(truthy (media_source_path item) = None \<longrightarrow>
      items_loop_mp env (item # rest) plex_items missing_items =
        emit [Log INFO (''Processing item: '' @ item_name item),
              Log WARNING (''No file path found for item: '' @ item_name item)]
          (items_loop_mp env rest plex_items (missing_items @ [item_name item])) \<and>
      items_loop_pm env (item # rest) plex_items missing_items =
        emit [Print (''No file path found for item: '' @ item_name item)]
          (items_loop_pm env rest plex_items (missing_items @ [item_name item])) \<and>
      filter is_query (fst (items_loop_mp env (item # rest) plex_items missing_items)) =
        filter is_query (fst (items_loop_mp env rest plex_items
                                (missing_items @ [item_name item]))) \<and>
      filter is_query (fst (items_loop_pm env (item # rest) plex_items missing_items)) =
        filter is_query (fst (items_loop_pm env rest plex_items
                                (missing_items @ [item_name item])))) \<and>
   (truthy (it_Path item) = None \<longrightarrow>
      items_loop_cli env (item # rest) plex_items = items_loop_cli env rest plex_items) \<and>
   (truthy (media_source_path item) = Some path \<longrightarrow>
      PlexSections \<in> set (fst (items_loop_mp env (item # rest) plex_items missing_items)) \<and>
      PlexSections \<in> set (fst (items_loop_pm env (item # rest) plex_items missing_items))) \<and>
   (truthy (it_Path item) = Some path \<longrightarrow>
      PlexSections \<in> set (fst (items_loop_cli env (item # rest) plex_items)))"
proof (intro conjI impI)
  assume a: "truthy (media_source_path item) = Some path"
  obtain t r where f: "find_media_by_path_mp env path = (t, r)"
    by (cases "find_media_by_path_mp env path")
  have "PlexSections \<in> set t" using find_media_by_path_mp_asks [of env path] f by simp
  then show "PlexSections \<in> set (fst (items_loop_mp env (item # rest) plex_items missing_items))"
    using a f by (auto split: sum.splits option.splits)
  obtain t' r' where f': "find_media_by_path_pm env path = (t', r')"
    by (cases "find_media_by_path_pm env path")
  have "PlexSections \<in> set t'" using find_media_by_path_pm_asks [of env path] f' by simp
  then show "PlexSections \<in> set (fst (items_loop_pm env (item # rest) plex_items missing_items))"
    using a f' by (auto split: option.splits)
next
  assume a: "truthy (it_Path item) = Some path"
  obtain t r where f: "find_plex_item env path = (t, r)"
    by (cases "find_plex_item env path")
  have "PlexSections \<in> set t" using find_plex_item_asks [of env path] f by simp
  then show "PlexSections \<in> set (fst (items_loop_cli env (item # rest) plex_items))"
    using a f by (auto split: sum.splits option.splits)
qed (simp_all add: emit_def)

theorem no_file_path_skips_search_witness:
  "truthy (media_source_path song_c) = None \<and> truthy (it_Path song_c) = None \<and>
   truthy (media_source_path song_a) = Some ''/media/a.mp3'' \<and>
   truthy (it_Path song_a) = Some ''/media/a.mp3'' \<and>
   items_loop_mp (scenario [music] []) [song_c] [] [] =
     ([Log INFO ''Processing item: c'', Log WARNING ''No file path found for item: c''],
      Inr ([], [''c''])) \<and>
   items_loop_pm (scenario [music] []) [song_c] [] [] =
     ([Print ''No file path found for item: c''], ([], [''c''])) \<and>
   items_loop_cli (scenario [music] []) [song_c, song_a] [] =
     ([PlexSections, PlexSearch ''Music'' ''/media/a.mp3''], Inr [track_a]) \<and>
   PlexSections \<in> set (fst (items_loop_mp (scenario [music] []) [song_a] [] [])) \<and>
   PlexSections \<in> set (fst (items_loop_pm (scenario [music] []) [song_a] [] []))"
proof -
  let ?E = "scenario [music] []"
  have c: "truthy (media_source_path song_c) = None \<and> truthy (it_Path song_c) = None"
    by (simp add: ex_defs run_defs)
  have a: "truthy (media_source_path song_a) = Some ''/media/a.mp3'' \<and>
           truthy (it_Path song_a) = Some ''/media/a.mp3''"
    by (simp add: ex_defs run_defs)
  have r: "items_loop_cli ?E [song_a] [] =
             ([PlexSections, PlexSearch ''Music'' ''/media/a.mp3''], Inr [track_a])"
    by (simp add: ex_defs run_defs)
  note t1 = no_file_path_skips_search [where item = song_c and env = ?E and rest = "[]"
      and plex_items = "[]" and missing_items = "[]"]
  note t2 = no_file_path_skips_search [where item = song_c and env = ?E and rest = "[song_a]"
      and plex_items = "[]"]
  note t3 = no_file_path_skips_search [where item = song_a and env = ?E and rest = "[]"
      and plex_items = "[]" and missing_items = "[]" and path = "''/media/a.mp3''"]
  have m1: "items_loop_mp ?E [song_c] [] [] =
        emit [Log INFO (''Processing item: '' @ item_name song_c),
              Log WARNING (''No file path found for item: '' @ item_name song_c)]
          (items_loop_mp ?E [] [] ([] @ [item_name song_c]))"
    using t1 c by blast
  have m2: "items_loop_pm ?E [song_c] [] [] =
        emit [Print (''No file path found for item: '' @ item_name song_c)]
          (items_loop_pm ?E [] [] ([] @ [item_name song_c]))"
    using t1 c by blast
  have m3: "items_loop_cli ?E [song_c, song_a] [] = items_loop_cli ?E [song_a] []"
    using t2 c by blast
  have m4: "PlexSections \<in> set (fst (items_loop_mp ?E [song_a] [] [])) \<and>
            PlexSections \<in> set (fst (items_loop_pm ?E [song_a] [] []))"
    using t3 a by blast
  show ?thesis
    using c a m1 m2 m3 r m4 by (simp add: emit_def item_name_def song_c_def)
qed

text \<open>
  C1 as stated says the item is returned as unmatched with the reason that it has no
  file path. In \<^verbatim>\<open>cli.py\<close> the loop over the song \<open>c\<close>, which has no path, emits
  nothing and returns what the loop over no item returns; the run on a playlist with
  \<open>c\<close> is, events and result, the run on the playlist without it, and the one line it
  writes does not mention \<open>c\<close>.
\<close>

theorem no_file_path_reason_counterexample:
  "truthy (it_Path song_c) = None \<and>
   items_loop_cli (scenario [music] []) [song_c] [] = ([], Inr []) \<and>
   items_loop_cli (scenario [music] []) [song_c] [] = items_loop_cli (scenario [music] []) [] [] \<and>
   migrate_playlist_cli (scenario [music] [song_a, song_c]) ''Road Trip''
     = migrate_playlist_cli (scenario [music] [song_a]) ''Road Trip'' \<and>
   filter is_output (fst (migrate_playlist_cli (scenario [music] [song_a, song_c]) ''Road Trip''))
     = [Print ''Created playlist 'Road Trip' in Plex with 1 items'']"
  by (simp add: ex_defs run_defs str_nat.simps)

subsection \<open>C2: the empty-match gate\<close>

text \<open>
  C2. A run in which no source item resolves to a match issues no playlist-creation
  call and fails. The hypothesis says that whatever playlist the run reads, none of its
  items has a match. Then the events of the run hold no creation call, and the run
  returns False or leaves with an exception (\<^verbatim>\<open>cli.py\<close>, which returns nothing on
  success, always leaves with an exception: SystemExit at the gate).
\<close>

theorem empty_match_gate:
  "((\<forall>nm items. snd (reading_source_mp env name) = Inr (Some (nm, items)) \<longrightarrow>
        List.map_filter (match_of_mp env) items = []) \<longrightarrow>
      filter is_create (fst (migrate_playlist_mp env name dry_run)) = [] \<and>
      (snd (migrate_playlist_mp env name dry_run) = Inr False \<or>
       (\<exists>e. snd (migrate_playlist_mp env name dry_run) = Inl e))) \<and>
   ((\<forall>target items. snd (reading_source_pm env name) = Inr (Some (target, items)) \<longrightarrow>
        List.map_filter (match_of_pm env) items = []) \<longrightarrow>
      filter is_create (fst (migrate_playlist_pm env name)) = [] \<and>
      (snd (migrate_playlist_pm env name) = Inr False \<or>
       (\<exists>e. snd (migrate_playlist_pm env name) = Inl e))) \<and>
   ((\<forall>items. reading_source_cli env name = Inr items \<longrightarrow>
        List.map_filter (match_of_cli env) items = []) \<longrightarrow>
      filter is_create (fst (migrate_playlist_cli env name)) = [] \<and>
      (\<exists>e. snd (migrate_playlist_cli env name) = Inl e))"
proof (intro conjI impI)
  assume h: "\<forall>nm items. snd (reading_source_mp env name) = Inr (Some (nm, items)) \<longrightarrow>
               List.map_filter (match_of_mp env) items = []"
  have none: "\<And>nm items p m. snd (reading_source_mp env name) = Inr (Some (nm, items)) \<Longrightarrow>
                snd (items_loop_mp env items [] []) = Inr (p, m) \<Longrightarrow> p = []"
    using h items_loop_mp_result by fastforce
  show "filter is_create (fst (migrate_playlist_mp env name dry_run)) = []"
    using migrate_playlist_mp_create [of _ _ env name dry_run] none
    unfolding no_create_iff by blast
  have "snd (migrate_playlist_mp env name dry_run) \<noteq> Inr True"
    using migrate_playlist_mp_True [of env name dry_run] none by blast
  then show "snd (migrate_playlist_mp env name dry_run) = Inr False \<or>
             (\<exists>e. snd (migrate_playlist_mp env name dry_run) = Inl e)"
    by (cases "snd (migrate_playlist_mp env name dry_run)") auto
next
  assume h: "\<forall>target items. snd (reading_source_pm env name) = Inr (Some (target, items)) \<longrightarrow>
               List.map_filter (match_of_pm env) items = []"
  have none: "\<And>target items. snd (reading_source_pm env name) = Inr (Some (target, items)) \<Longrightarrow>
                fst (snd (items_loop_pm env items [] [])) = []"
    using h by (simp add: items_loop_pm_result)
  show "filter is_create (fst (migrate_playlist_pm env name)) = []"
    using migrate_playlist_pm_create [of _ _ env name] none
    unfolding no_create_iff by fastforce
  have "snd (migrate_playlist_pm env name) \<noteq> Inr True"
    using migrate_playlist_pm_True [of env name] none by blast
  then show "snd (migrate_playlist_pm env name) = Inr False \<or>
             (\<exists>e. snd (migrate_playlist_pm env name) = Inl e)"
    by (cases "snd (migrate_playlist_pm env name)") auto
next
  assume h: "\<forall>items. reading_source_cli env name = Inr items \<longrightarrow>
               List.map_filter (match_of_cli env) items = []"
  have none: "\<And>items p. reading_source_cli env name = Inr items \<Longrightarrow>
                snd (items_loop_cli env items []) = Inr p \<Longrightarrow> p = []"
    using h items_loop_cli_result by fastforce
  show "filter is_create (fst (migrate_playlist_cli env name)) = []"
    using migrate_playlist_cli_create [of _ _ env name] none
    unfolding no_create_iff by blast
  have "\<And>u. snd (migrate_playlist_cli env name) \<noteq> Inr u"
    using migrate_playlist_cli_returns [of env name] none by blast
  then show "\<exists>e. snd (migrate_playlist_cli env name) = Inl e"
    by (cases "snd (migrate_playlist_cli env name)") auto
qed

theorem empty_match_gate_witness:
  "snd (reading_source_mp (scenario [music] [song_x]) ''Road Trip'')
     = Inr (Some (''Road Trip'', [song_x])) \<and>
   List.map_filter (match_of_mp (scenario [music] [song_x])) [song_x] = [] \<and>
   filter is_create (fst (migrate_playlist_mp (scenario [music] [song_x]) ''Road Trip'' False)) = [] \<and>
   snd (migrate_playlist_mp (scenario [music] [song_x]) ''Road Trip'' False) = Inr False \<and>
   snd (reading_source_pm (scenario [music] [song_x]) ''Road Trip'')
     = Inr (Some (road_trip, [song_x])) \<and>
   List.map_filter (match_of_pm (scenario [music] [song_x])) [song_x] = [] \<and>
   filter is_create (fst (migrate_playlist_pm (scenario [music] [song_x]) ''Road Trip'')) = [] \<and>
   snd (migrate_playlist_pm (scenario [music] [song_x]) ''Road Trip'') = Inr False \<and>
   reading_source_cli (scenario [music] [song_x]) ''Road Trip'' = Inr [song_x] \<and>
   List.map_filter (match_of_cli (scenario [music] [song_x])) [song_x] = [] \<and>
   filter is_create (fst (migrate_playlist_cli (scenario [music] [song_x]) ''Road Trip'')) = [] \<and>
   snd (migrate_playlist_cli (scenario [music] [song_x]) ''Road Trip'')
     = Inl (SystemExit ''No matching items found in Plex'')"
proof -
  let ?E = "scenario [music] [song_x]"
  have r1: "snd (reading_source_mp ?E ''Road Trip'') = Inr (Some (''Road Trip'', [song_x]))"
    by (simp add: ex_defs run_defs)
  have m1: "List.map_filter (match_of_mp ?E) [song_x] = []"
    by (simp add: ex_defs run_defs)
  have r2: "snd (reading_source_pm ?E ''Road Trip'') = Inr (Some (road_trip, [song_x]))"
    by (simp add: ex_defs run_defs)
  have m2: "List.map_filter (match_of_pm ?E) [song_x] = []"
    by (simp add: ex_defs run_defs)
  have r3: "reading_source_cli ?E ''Road Trip'' = Inr [song_x]"
    by (simp add: ex_defs run_defs)
  have m3: "List.map_filter (match_of_cli ?E) [song_x] = []"
    by (simp add: ex_defs run_defs)
  have e1: "snd (migrate_playlist_mp ?E ''Road Trip'' False) = Inr False"
    by (simp add: ex_defs run_defs)
  have e2: "snd (migrate_playlist_pm ?E ''Road Trip'') = Inr False"
    by (simp add: ex_defs run_defs)
  have e3: "snd (migrate_playlist_cli ?E ''Road Trip'')
              = Inl (SystemExit ''No matching items found in Plex'')"
    by (simp add: ex_defs run_defs)
  have h1: "\<forall>nm items. snd (reading_source_mp ?E ''Road Trip'') = Inr (Some (nm, items)) \<longrightarrow>
              List.map_filter (match_of_mp ?E) items = []"
    using r1 m1 by simp
  have h2: "\<forall>target items. snd (reading_source_pm ?E ''Road Trip'') = Inr (Some (target, items)) \<longrightarrow>
              List.map_filter (match_of_pm ?E) items = []"
    using r2 m2 by simp
  have h3: "\<forall>items. reading_source_cli ?E ''Road Trip'' = Inr items \<longrightarrow>
              List.map_filter (match_of_cli ?E) items = []"
    using r3 m3 by simp
  have "filter is_create (fst (migrate_playlist_mp ?E ''Road Trip'' False)) = [] \<and>
        filter is_create (fst (migrate_playlist_pm ?E ''Road Trip'')) = [] \<and>
        filter is_create (fst (migrate_playlist_cli ?E ''Road Trip'')) = []"
    using empty_match_gate [of ?E "''Road Trip''" False] h1 h2 h3 by blast
  then show ?thesis using r1 m1 r2 m2 r3 m3 e1 e2 e3 by simp
qed

subsection \<open>C3: the created playlist keeps the source order\<close>

text \<open>
  C3. The items passed to the creation call are, in this order, the matches of the
  source items that have one: the source list with the unmatched items left out, each
  remaining item replaced by its match. The list of matched source items is a
  subsequence of the source list, so the relative order of the matched items is that of
  the source playlist.
\<close>

theorem created_items_in_source_order:
  "(PlexCreate n xs \<in> set (fst (migrate_playlist_mp env name dry_run)) \<longrightarrow>
      (\<exists>nm items. snd (reading_source_mp env name) = Inr (Some (nm, items)) \<and>
         xs = map (\<lambda>i. the (match_of_mp env i)) (filter (\<lambda>i. match_of_mp env i \<noteq> None) items) \<and>
         subseq (filter (\<lambda>i. match_of_mp env i \<noteq> None) items) items)) \<and>
   (PlexCreate n xs \<in> set (fst (migrate_playlist_pm env name)) \<longrightarrow>
      (\<exists>target items. snd (reading_source_pm env name) = Inr (Some (target, items)) \<and>
         xs = map (\<lambda>i. the (match_of_pm env i)) (filter (\<lambda>i. match_of_pm env i \<noteq> None) items) \<and>
         subseq (filter (\<lambda>i. match_of_pm env i \<noteq> None) items) items)) \<and>
   (PlexCreate n xs \<in> set (fst (migrate_playlist_cli env name)) \<longrightarrow>
      (\<exists>items. reading_source_cli env name = Inr items \<and>
         xs = map (\<lambda>i. the (match_of_cli env i)) (filter (\<lambda>i. match_of_cli env i \<noteq> None) items) \<and>
         subseq (filter (\<lambda>i. match_of_cli env i \<noteq> None) items) items))"
proof (intro conjI impI)
  assume "PlexCreate n xs \<in> set (fst (migrate_playlist_mp env name dry_run))"
  then obtain items m where
    r: "snd (reading_source_mp env name) = Inr (Some (n, items))" and
    l: "snd (items_loop_mp env items [] []) = Inr (xs, m)"
    using migrate_playlist_mp_create by blast
  have "xs = List.map_filter (match_of_mp env) items"
    using items_loop_mp_result [OF l] by simp
  then have "xs = map (\<lambda>i. the (match_of_mp env i)) (filter (\<lambda>i. match_of_mp env i \<noteq> None) items)"
    by (simp add: List.map_filter_def comp_def)
  then show "\<exists>nm items. snd (reading_source_mp env name) = Inr (Some (nm, items)) \<and>
         xs = map (\<lambda>i. the (match_of_mp env i)) (filter (\<lambda>i. match_of_mp env i \<noteq> None) items) \<and>
         subseq (filter (\<lambda>i. match_of_mp env i \<noteq> None) items) items"
    using r subseq_filter_left by blast
next
  assume "PlexCreate n xs \<in> set (fst (migrate_playlist_pm env name))"
  then obtain target items where
    r: "snd (reading_source_pm env name) = Inr (Some (target, items))" and
    l: "fst (snd (items_loop_pm env items [] [])) = xs"
    using migrate_playlist_pm_create by blast
  have "xs = List.map_filter (match_of_pm env) items"
    using l by (simp add: items_loop_pm_result)
  then have "xs = map (\<lambda>i. the (match_of_pm env i)) (filter (\<lambda>i. match_of_pm env i \<noteq> None) items)"
    by (simp add: List.map_filter_def comp_def)
  then show "\<exists>target items. snd (reading_source_pm env name) = Inr (Some (target, items)) \<and>
         xs = map (\<lambda>i. the (match_of_pm env i)) (filter (\<lambda>i. match_of_pm env i \<noteq> None) items) \<and>
         subseq (filter (\<lambda>i. match_of_pm env i \<noteq> None) items) items"
    using r subseq_filter_left by blast
next
  assume "PlexCreate n xs \<in> set (fst (migrate_playlist_cli env name))"
  then obtain items where
    r: "reading_source_cli env name = Inr items" and
    l: "snd (items_loop_cli env items []) = Inr xs"
    using migrate_playlist_cli_create by blast
  have "xs = List.map_filter (match_of_cli env) items"
    using items_loop_cli_result [OF l] by simp
  then have "xs = map (\<lambda>i. the (match_of_cli env i)) (filter (\<lambda>i. match_of_cli env i \<noteq> None) items)"
    by (simp add: List.map_filter_def comp_def)
  then show "\<exists>items. reading_source_cli env name = Inr items \<and>
         xs = map (\<lambda>i. the (match_of_cli env i)) (filter (\<lambda>i. match_of_cli env i \<noteq> None) items) \<and>
         subseq (filter (\<lambda>i. match_of_cli env i \<noteq> None) items) items"
    using r subseq_filter_left by blast
qed

theorem created_items_in_source_order_witness:
  "PlexCreate ''Road Trip'' [track_a, track_b]
     \<in> set (fst (migrate_playlist_mp (scenario [music] [song_a, song_x, song_c, song_b])
                   ''Road Trip'' False)) \<and>
   PlexCreate ''Road Trip (from Jellyfin)'' [track_a, track_b]
     \<in> set (fst (migrate_playlist_pm (scenario [music] [song_a, song_x, song_c, song_b])
                   ''Road Trip'')) \<and>
   PlexCreate ''Road Trip'' [track_a, track_b]
     \<in> set (fst (migrate_playlist_cli (scenario [music] [song_a, song_x, song_c, song_b])
                   ''Road Trip'')) \<and>
   filter (\<lambda>i. match_of_mp (scenario [music] [song_a, song_x, song_c, song_b]) i \<noteq> None)
     [song_a, song_x, song_c, song_b] = [song_a, song_b] \<and>
   [track_a, track_b]
     = map (\<lambda>i. the (match_of_mp (scenario [music] [song_a, song_x, song_c, song_b]) i))
         [song_a, song_b] \<and>
   subseq [song_a, song_b] [song_a, song_x, song_c, song_b]"
proof -
  let ?E = "scenario [music] [song_a, song_x, song_c, song_b]"
  have c1: "PlexCreate ''Road Trip'' [track_a, track_b]
              \<in> set (fst (migrate_playlist_mp ?E ''Road Trip'' False))"
    by (simp add: ex_defs run_defs)
  have c2: "PlexCreate ''Road Trip (from Jellyfin)'' [track_a, track_b]
              \<in> set (fst (migrate_playlist_pm ?E ''Road Trip''))"
    by (simp add: ex_defs run_defs)
  have c3: "PlexCreate ''Road Trip'' [track_a, track_b]
              \<in> set (fst (migrate_playlist_cli ?E ''Road Trip''))"
    by (simp add: ex_defs run_defs)
  have r: "snd (reading_source_mp ?E ''Road Trip'')
             = Inr (Some (''Road Trip'', [song_a, song_x, song_c, song_b]))"
    by (simp add: ex_defs run_defs)
  have f: "filter (\<lambda>i. match_of_mp ?E i \<noteq> None) [song_a, song_x, song_c, song_b]
             = [song_a, song_b]"
    by (simp add: ex_defs run_defs)
  from created_items_in_source_order [of "''Road Trip''" "[track_a, track_b]" ?E "''Road Trip''" False]
    c1 r f
  have "[track_a, track_b] = map (\<lambda>i. the (match_of_mp ?E i)) [song_a, song_b] \<and>
        subseq [song_a, song_b] [song_a, song_x, song_c, song_b]"
    by auto
  then show ?thesis using c1 c2 c3 f by simp
qed

subsection \<open>C4: a library whose search raises\<close>

text \<open>
  C4, as amended. A library whose search raises does not abort the resolution of an item:
  in each file the answer of the traversal is the answer of the traversal with the
  raising libraries left out, so a later library can still give the match. Only
  \<^verbatim>\<open>migrate_playlist.py\<close> logs the error (one warning naming the section);
  \<^verbatim>\<open>playlist_migrator.py\<close> and \<^verbatim>\<open>cli.py\<close> write nothing during the traversal.
\<close>

theorem library_error_tolerated:
  "snd (scan_sections_mp p ss)
     = snd (scan_sections_mp p (filter (\<lambda>s. \<not> isl (sec_all s)) ss)) \<and>
   snd (search_libraries_pm p ss)
     = snd (search_libraries_pm p (filter (\<lambda>s. \<not> isl (sec_search_filepath s p)) ss)) \<and>
   snd (search_sections_cli p ss)
     = snd (search_sections_cli p (filter (\<lambda>s. \<not> isl (sec_search_filename s p)) ss)) \<and>
   (sec_all s = Inl e \<longrightarrow>
      scan_sections_mp p (s # ss)
        = emit [PlexAll (sec_title s),
                Log WARNING (''Error searching section '' @ sec_title s @ '': '' @ str_error e)]
            (scan_sections_mp p ss)) \<and>
   filter is_output (fst (search_libraries_pm p ss)) = [] \<and>
   filter is_output (fst (search_sections_cli p ss)) = []"
proof (intro conjI impI)
  show "snd (scan_sections_mp p ss)
          = snd (scan_sections_mp p (filter (\<lambda>s. \<not> isl (sec_all s)) ss))"
    by (rule scan_sections_mp_skip_failing)
  show "snd (search_libraries_pm p ss)
          = snd (search_libraries_pm p (filter (\<lambda>s. \<not> isl (sec_search_filepath s p)) ss))"
    by (rule search_libraries_pm_skip_failing)
  show "snd (search_sections_cli p ss)
          = snd (search_sections_cli p (filter (\<lambda>s. \<not> isl (sec_search_filename s p)) ss))"
    by (rule search_sections_cli_skip_failing)
  show "filter is_output (fst (search_libraries_pm p ss)) = []"
    by (rule search_libraries_pm_silent)
  show "filter is_output (fst (search_sections_cli p ss)) = []"
    by (rule search_sections_cli_silent)
next
  assume "sec_all s = Inl e"
  then show "scan_sections_mp p (s # ss)
        = emit [PlexAll (sec_title s),
                Log WARNING (''Error searching section '' @ sec_title s @ '': '' @ str_error e)]
            (scan_sections_mp p ss)"
    by (simp add: emit_def)
qed

theorem library_error_tolerated_witness:
  "sec_all broken = Inl (OtherError ''timeout'') \<and>
   scan_sections_mp ''/media/a.mp3'' [broken, music]
     = ([PlexAll ''Broken'', Log WARNING ''Error searching section Broken: timeout'',
         PlexAll ''Music''], Some track_a) \<and>
   snd (search_libraries_pm ''/media/a.mp3'' [broken, music]) = Some track_a \<and>
   snd (search_sections_cli ''/media/a.mp3'' [broken, music]) = Some track_a"
proof -
  have h: "sec_all broken = Inl (OtherError ''timeout'')"
    by (simp add: broken_def)
  have m: "scan_sections_mp ''/media/a.mp3'' [music] = ([PlexAll ''Music''], Some track_a)"
    by (simp add: ex_defs run_defs)
  have f1: "filter (\<lambda>s. \<not> isl (sec_search_filepath s ''/media/a.mp3'')) [broken, music] = [music]"
    by (simp add: ex_defs run_defs)
  have f2: "filter (\<lambda>s. \<not> isl (sec_search_filename s ''/media/a.mp3'')) [broken, music] = [music]"
    by (simp add: ex_defs run_defs)
  have m1: "snd (search_libraries_pm ''/media/a.mp3'' [music]) = Some track_a"
    by (simp add: ex_defs run_defs)
  have m2: "snd (search_sections_cli ''/media/a.mp3'' [music]) = Some track_a"
    by (simp add: ex_defs run_defs)
  note t = library_error_tolerated [of "''/media/a.mp3''" "[broken, music]" broken
      "OtherError ''timeout''"]
  have s0: "scan_sections_mp ''/media/a.mp3'' [broken, music]
        = emit [PlexAll (sec_title broken),
                Log WARNING (''Error searching section '' @ sec_title broken @ '': ''
                             @ str_error (OtherError ''timeout''))]
            (scan_sections_mp ''/media/a.mp3'' [music])"
    using library_error_tolerated [of "''/media/a.mp3''" "[music]" broken
        "OtherError ''timeout''"] h
    by blast
  have s1: "snd (search_libraries_pm ''/media/a.mp3'' [broken, music])
              = snd (search_libraries_pm ''/media/a.mp3'' [music])"
    using t f1 by simp
  have s2: "snd (search_sections_cli ''/media/a.mp3'' [broken, music])
              = snd (search_sections_cli ''/media/a.mp3'' [music])"
    using t f2 by simp
  show ?thesis
    using h s0 m s1 m1 s2 m2 by (simp add: emit_def broken_def)
qed

text \<open>
  C4 as stated says the error is logged. In \<^verbatim>\<open>playlist_migrator.py\<close> and in
  \<^verbatim>\<open>cli.py\<close> the first library raises, the second gives the match, and the events of
  the lookup hold no log line and no printed line.
\<close>

theorem library_error_logged_counterexample:
  "sec_search_filepath broken ''/media/a.mp3'' = Inl (OtherError ''timeout'') \<and>
   find_media_by_path_pm (scenario [broken, music] []) ''/media/a.mp3''
     = ([PlexSections, PlexSearch ''Broken'' ''/media/a.mp3'',
         PlexSearch ''Music'' ''/media/a.mp3''], Some track_a) \<and>
   filter is_output (fst (find_media_by_path_pm (scenario [broken, music] []) ''/media/a.mp3''))
     = [] \<and>
   sec_search_filename broken ''/media/a.mp3'' = Inl (OtherError ''timeout'') \<and>
   find_plex_item (scenario [broken, music] []) ''/media/a.mp3''
     = ([PlexSections, PlexSearch ''Broken'' ''/media/a.mp3'',
         PlexSearch ''Music'' ''/media/a.mp3''], Inr (Some track_a)) \<and>
   filter is_output (fst (find_plex_item (scenario [broken, music] []) ''/media/a.mp3'')) = []"
  by (simp add: ex_defs run_defs)

subsection \<open>C5: every library raises\<close>

text \<open>
  C5, as amended. When every library either raises or answers without a hit (all of them
  raising included), the lookup answers None and the loop treats the item as not found:
  \<^verbatim>\<open>migrate_playlist.py\<close> appends \<open>name (path)\<close> to the missing items and logs
  that no matching item was found, \<^verbatim>\<open>playlist_migrator.py\<close> appends the name and
  prints the not-found line, \<^verbatim>\<open>cli.py\<close> prints its could-not-find warning. No file
  has a separate outcome for a lookup error.
\<close>

theorem failing_libraries_count_as_not_found:
  "(plex_sections env = Inr ss \<and> truthy (media_source_path item) = Some fp \<and>
    (\<forall>s\<in>set ss. case sec_all s of Inl e \<Rightarrow> True
                    | Inr items \<Rightarrow> find (part_file_equals fp) items = None) \<longrightarrow>
      snd (find_media_by_path_mp env fp) = Inr None \<and>
      snd (items_loop_mp env [item] plex_items missing_items)
        = Inr (plex_items, missing_items @ [item_name item @ '' ('' @ fp @ '')'']) \<and>
      last (fst (items_loop_mp env [item] plex_items missing_items))
        = Log WARNING (''No matching Plex item found for path: '' @ fp)) \<and>
   (plex_sections env = Inr ss \<and> truthy (media_source_path item) = Some fp \<and>
    (\<forall>s\<in>set ss. case sec_search_filepath s fp of Inl e \<Rightarrow> True
                    | Inr results \<Rightarrow> results = []) \<longrightarrow>
      snd (find_media_by_path_pm env fp) = None \<and>
      snd (items_loop_pm env [item] plex_items missing_items)
        = (plex_items, missing_items @ [item_name item]) \<and>
      last (fst (items_loop_pm env [item] plex_items missing_items))
        = Print (''Not found in Plex: '' @ item_name item @ '' (path: '' @ fp @ '')'')) \<and>
   (plex_sections env = Inr ss \<and> truthy (it_Path item) = Some fp \<and>
    (\<forall>s\<in>set ss. case sec_search_filename s fp of Inl e \<Rightarrow> True
                    | Inr results \<Rightarrow> results = []) \<longrightarrow>
      snd (find_plex_item env fp) = Inr None \<and>
      snd (items_loop_cli env [item] plex_items) = Inr plex_items \<and>
      last (fst (items_loop_cli env [item] plex_items))
        = PrintErr (''Warning: could not find '' @ [CHR 0x27] @ fp @ [CHR 0x27] @ '' in Plex''))"
proof (intro conjI impI)
  assume a: "plex_sections env = Inr ss \<and> truthy (media_source_path item) = Some fp \<and>
    (\<forall>s\<in>set ss. case sec_all s of Inl e \<Rightarrow> True
                    | Inr items \<Rightarrow> find (part_file_equals fp) items = None)"
  then have "snd (scan_sections_mp fp ss) = None"
    using scan_sections_mp_no_hit by blast
  then have f: "snd (find_media_by_path_mp env fp) = Inr None"
    using a find_media_by_path_mp_sections by simp
  then obtain t where t: "find_media_by_path_mp env fp = (t, Inr None)"
    by (cases "find_media_by_path_mp env fp") simp
  show "snd (find_media_by_path_mp env fp) = Inr None" by (rule f)
  show "snd (items_loop_mp env [item] plex_items missing_items)
        = Inr (plex_items, missing_items @ [item_name item @ '' ('' @ fp @ '')''])"
    using a t by simp
  show "last (fst (items_loop_mp env [item] plex_items missing_items))
        = Log WARNING (''No matching Plex item found for path: '' @ fp)"
    using a t by simp
next
  assume a: "plex_sections env = Inr ss \<and> truthy (media_source_path item) = Some fp \<and>
    (\<forall>s\<in>set ss. case sec_search_filepath s fp of Inl e \<Rightarrow> True
                    | Inr results \<Rightarrow> results = [])"
  then have "snd (search_libraries_pm fp ss) = None"
    using search_libraries_pm_no_hit by blast
  then have f: "snd (find_media_by_path_pm env fp) = None"
    using a find_media_by_path_pm_sections by simp
  then obtain t where t: "find_media_by_path_pm env fp = (t, None)"
    by (cases "find_media_by_path_pm env fp") simp
  show "snd (find_media_by_path_pm env fp) = None" by (rule f)
  show "snd (items_loop_pm env [item] plex_items missing_items)
        = (plex_items, missing_items @ [item_name item])"
    using a t by simp
  show "last (fst (items_loop_pm env [item] plex_items missing_items))
        = Print (''Not found in Plex: '' @ item_name item @ '' (path: '' @ fp @ '')'')"
    using a t by simp
next
  assume a: "plex_sections env = Inr ss \<and> truthy (it_Path item) = Some fp \<and>
    (\<forall>s\<in>set ss. case sec_search_filename s fp of Inl e \<Rightarrow> True
                    | Inr results \<Rightarrow> results = [])"
  then have "snd (search_sections_cli fp ss) = None"
    using search_sections_cli_no_hit by blast
  then have f: "snd (find_plex_item env fp) = Inr None"
    using a find_plex_item_sections by simp
  then obtain t where t: "find_plex_item env fp = (t, Inr None)"
    by (cases "find_plex_item env fp") simp
  show "snd (find_plex_item env fp) = Inr None" by (rule f)
  show "snd (items_loop_cli env [item] plex_items) = Inr plex_items"
    using a t by simp
  show "last (fst (items_loop_cli env [item] plex_items))
        = PrintErr (''Warning: could not find '' @ [CHR 0x27] @ fp @ [CHR 0x27] @ '' in Plex'')"
    using a t by simp
qed

theorem failing_libraries_count_as_not_found_witness:
  "plex_sections (scenario [broken, broken] [song_x]) = Inr [broken, broken] \<and>
   truthy (media_source_path song_x) = Some ''/media/x.mp3'' \<and>
   truthy (it_Path song_x) = Some ''/media/x.mp3'' \<and>
   sec_all broken = Inl (OtherError ''timeout'') \<and>
   sec_search_filepath broken ''/media/x.mp3'' = Inl (OtherError ''timeout'') \<and>
   sec_search_filename broken ''/media/x.mp3'' = Inl (OtherError ''timeout'') \<and>
   snd (items_loop_mp (scenario [broken, broken] [song_x]) [song_x] [] [])
     = Inr ([], [''x (/media/x.mp3)'']) \<and>
   snd (items_loop_pm (scenario [broken, broken] [song_x]) [song_x] [] []) = ([], [''x'']) \<and>
   snd (items_loop_cli (scenario [broken, broken] [song_x]) [song_x] []) = Inr []"
proof -
  let ?E = "scenario [broken, broken] [song_x]"
  have s: "plex_sections ?E = Inr [broken, broken]" by (simp add: scenario_def)
  have p1: "truthy (media_source_path song_x) = Some ''/media/x.mp3''"
    by (simp add: ex_defs run_defs)
  have p2: "truthy (it_Path song_x) = Some ''/media/x.mp3''"
    by (simp add: ex_defs run_defs)
  have b1: "sec_all broken = Inl (OtherError ''timeout'')" by (simp add: broken_def)
  have b2: "sec_search_filepath broken ''/media/x.mp3'' = Inl (OtherError ''timeout'')"
    by (simp add: broken_def)
  have b3: "sec_search_filename broken ''/media/x.mp3'' = Inl (OtherError ''timeout'')"
    by (simp add: broken_def)
  have h1: "\<forall>s\<in>set [broken, broken]. case sec_all s of Inl e \<Rightarrow> True
              | Inr items \<Rightarrow> find (part_file_equals ''/media/x.mp3'') items = None"
    using b1 by simp
  have h2: "\<forall>s\<in>set [broken, broken]. case sec_search_filepath s ''/media/x.mp3'' of
              Inl e \<Rightarrow> True | Inr results \<Rightarrow> results = []"
    using b2 by simp
  have h3: "\<forall>s\<in>set [broken, broken]. case sec_search_filename s ''/media/x.mp3'' of
              Inl e \<Rightarrow> True | Inr results \<Rightarrow> results = []"
    using b3 by simp
  note t = failing_libraries_count_as_not_found [of ?E "[broken, broken]" song_x
      "''/media/x.mp3''" "[]" "[]"]
  have r1: "snd (items_loop_mp ?E [song_x] [] [])
              = Inr ([], [] @ [item_name song_x @ '' ('' @ ''/media/x.mp3'' @ '')''])"
    using t s p1 h1 by blast
  have r2: "snd (items_loop_pm ?E [song_x] [] []) = ([], [] @ [item_name song_x])"
    using t s p1 h2 by blast
  have r3: "snd (items_loop_cli ?E [song_x] []) = Inr []"
    using t s p2 h3 by blast
  show ?thesis
    using s p1 p2 b1 b2 b3 r1 r2 r3 by (simp add: item_name_def song_x_def)
qed

text \<open>
  C5 as stated says the outcome of an item whose every library search raised can be
  told from that of an item not found. With one library that raises, and with one that
  answers the empty list, the lookups answer the same, the loops end in the same state,
  the runs return the same result, and the runs of \<^verbatim>\<open>playlist_migrator.py\<close> and
  \<^verbatim>\<open>cli.py\<close> write the same lines.
\<close>

theorem lookup_error_reason_counterexample:
  "sec_all broken = Inl (OtherError ''timeout'') \<and> sec_all vacant = Inr [] \<and>
   sec_search_filepath broken ''/media/x.mp3'' = Inl (OtherError ''timeout'') \<and>
   sec_search_filepath vacant ''/media/x.mp3'' = Inr [] \<and>
   sec_search_filename broken ''/media/x.mp3'' = Inl (OtherError ''timeout'') \<and>
   sec_search_filename vacant ''/media/x.mp3'' = Inr [] \<and>
   snd (find_media_by_path_mp (scenario [broken] [song_x]) ''/media/x.mp3'')
     = snd (find_media_by_path_mp (scenario [vacant] [song_x]) ''/media/x.mp3'') \<and>
   snd (items_loop_mp (scenario [broken] [song_x]) [song_x] [] [])
     = snd (items_loop_mp (scenario [vacant] [song_x]) [song_x] [] []) \<and>
   snd (migrate_playlist_mp (scenario [broken] [song_x]) ''Road Trip'' False)
     = snd (migrate_playlist_mp (scenario [vacant] [song_x]) ''Road Trip'' False) \<and>
   filter is_output (fst (migrate_playlist_pm (scenario [broken] [song_x]) ''Road Trip''))
     = filter is_output (fst (migrate_playlist_pm (scenario [vacant] [song_x]) ''Road Trip'')) \<and>
   snd (migrate_playlist_pm (scenario [broken] [song_x]) ''Road Trip'')
     = snd (migrate_playlist_pm (scenario [vacant] [song_x]) ''Road Trip'') \<and>
   filter is_output (fst (migrate_playlist_cli (scenario [broken] [song_x]) ''Road Trip''))
     = filter is_output (fst (migrate_playlist_cli (scenario [vacant] [song_x]) ''Road Trip'')) \<and>
   snd (migrate_playlist_cli (scenario [broken] [song_x]) ''Road Trip'')
     = snd (migrate_playlist_cli (scenario [vacant] [song_x]) ''Road Trip'')"
  by (simp add: ex_defs run_defs)

subsection \<open>C6: the dry run\<close>

text \<open>
  C6. Only \<^verbatim>\<open>migrate_playlist.py\<close> has a dry-run mode. A run of it with
  \<open>dry_run = True\<close> issues no creation call, whatever the environment and however many
  items match, and it returns True whenever the playlist it read has at least one item
  with a match.
\<close>

theorem dry_run_never_creates:
  "filter is_create (fst (migrate_playlist_mp env name True)) = [] \<and>
   (snd (reading_source_mp env name) = Inr (Some (nm, items)) \<and>
    List.map_filter (match_of_mp env) items \<noteq> [] \<longrightarrow>
      snd (migrate_playlist_mp env name True) = Inr True)"
proof (intro conjI impI)
  show "filter is_create (fst (migrate_playlist_mp env name True)) = []"
    using migrate_playlist_mp_create [of _ _ env name True]
    unfolding no_create_iff by blast
next
  assume a: "snd (reading_source_mp env name) = Inr (Some (nm, items)) \<and>
             List.map_filter (match_of_mp env) items \<noteq> []"
  then obtain i x where "match_of_mp env i = Some x"
    using map_filter_not_Nil by blast
  then obtain ss where ss: "plex_sections env = Inr ss"
    using match_of_mp_sections by blast
  obtain p m where l: "snd (items_loop_mp env items [] []) = Inr (p, m)"
    using items_loop_mp_returns [OF ss] by blast
  have p: "p = List.map_filter (match_of_mp env) items"
    using items_loop_mp_result [OF l] by simp
  then have ne: "p \<noteq> []" using a by simp
  have d: "snd (deciding_mp env nm True p m) = Inr True"
    using ne by (simp add: deciding_mp_def)
  obtain t where rd: "reading_source_mp env name = (t, Inr (Some (nm, items)))"
    using a by (cases "reading_source_mp env name") simp
  obtain t' where lp: "items_loop_mp env items [] [] = (t', Inr (p, m))"
    using l by (cases "items_loop_mp env items [] []") simp
  show "snd (migrate_playlist_mp env name True) = Inr True"
    using rd lp d by (simp add: migrate_playlist_mp_def)
qed

theorem dry_run_never_creates_witness:
  "snd (reading_source_mp (scenario [music] [song_a, song_b, song_c]) ''Road Trip'')
     = Inr (Some (''Road Trip'', [song_a, song_b, song_c])) \<and>
   List.map_filter (match_of_mp (scenario [music] [song_a, song_b, song_c]))
     [song_a, song_b, song_c] = [track_a, track_b] \<and>
   filter is_create
     (fst (migrate_playlist_mp (scenario [music] [song_a, song_b, song_c]) ''Road Trip'' True)) = [] \<and>
   snd (migrate_playlist_mp (scenario [music] [song_a, song_b, song_c]) ''Road Trip'' True)
     = Inr True"
proof -
  let ?E = "scenario [music] [song_a, song_b, song_c]"
  have r: "snd (reading_source_mp ?E ''Road Trip'')
             = Inr (Some (''Road Trip'', [song_a, song_b, song_c]))"
    by (simp add: ex_defs run_defs)
  have m: "List.map_filter (match_of_mp ?E) [song_a, song_b, song_c] = [track_a, track_b]"
    by (simp add: ex_defs run_defs)
  from dry_run_never_creates [of ?E "''Road Trip''" "''Road Trip''" "[song_a, song_b, song_c]"] r m
  have "filter is_create (fst (migrate_playlist_mp ?E ''Road Trip'' True)) = [] \<and>
        snd (migrate_playlist_mp ?E ''Road Trip'' True) = Inr True"
    by simp
  then show ?thesis using r m by simp
qed

subsection \<open>C7: the choice of the source playlist\<close>

text \<open>
  C7, as amended. \<^verbatim>\<open>playlist_migrator.py\<close> and \<^verbatim>\<open>migrate_playlist.py\<close> select the
  first playlist whose name equals the requested name without regard to case (the
  lowered names are equal), \<^verbatim>\<open>cli.py\<close> the first playlist whose name is the requested
  name itself, case included; each then reads the items of the playlist it selected.
  Where the search results of \<^verbatim>\<open>playlist_migrator.py\<close> are not empty and hold no such
  playlist, it falls back to the first result and prints that no exact match was found
  and which playlist it uses; a playlist it found it prints as found.
  \<^verbatim>\<open>migrate_playlist.py\<close> and \<^verbatim>\<open>cli.py\<close>, which list all playlists and do not
  search, report a playlist they do not select as not found (return of False,
  SystemExit). In the first conjuncts a result listed before the selected one has a name:
  \<^verbatim>\<open>playlist_migrator.py\<close> raises KeyError on a result without one.
\<close>

theorem playlist_lookup:
  "(playlists = before @ target # after \<and>
    (\<forall>q\<in>set before. \<exists>n. pl_Name q = Some n \<and> str_lower env n \<noteq> str_lower env name) \<and>
    pl_Name target = Some nm \<and> str_lower env nm = str_lower env name \<longrightarrow>
      select_playlist_pm env name playlists
        = ([Print (''Found playlist: '' @ nm)], Inr (Some target))) \<and>
   (playlists = first # rest \<and>
    (\<forall>q\<in>set playlists. \<exists>n. pl_Name q = Some n \<and> str_lower env n \<noteq> str_lower env name) \<and>
    pl_Name first = Some nm \<longrightarrow>
      select_playlist_pm env name playlists
        = ([Print (''Exact match not found, using playlist: '' @ nm)], Inr (Some first))) \<and>
   (jf_playlists env = Inr playlists \<and>
    snd (select_playlist_pm env name playlists) = Inr (Some target) \<and>
    pl_Id target = Some pid \<and> jf_playlist_items env pid = Inr items \<and> items \<noteq> [] \<longrightarrow>
      snd (reading_source_pm env name) = Inr (Some (target, items))) \<and>
   (jf_playlists env = Inr playlists \<and> playlists = before @ target # after \<and>
    (\<forall>q\<in>set before. str_lower env (case pl_Name q of None \<Rightarrow> [] | Some n \<Rightarrow> n)
                       \<noteq> str_lower env name) \<and>
    str_lower env (case pl_Name target of None \<Rightarrow> [] | Some n \<Rightarrow> n) = str_lower env name \<longrightarrow>
      find_playlist_by_name env name = Inr (Some target) \<and>
      (pl_Name target = Some nm \<and> pl_Id target = Some pid \<and>
       jf_playlist_items env pid = Inr items \<longrightarrow>
         snd (reading_source_mp env name) = Inr (Some (nm, items)))) \<and>
   (jf_playlists env = Inr playlists \<and>
    (\<forall>q\<in>set playlists. str_lower env (case pl_Name q of None \<Rightarrow> [] | Some n \<Rightarrow> n)
                          \<noteq> str_lower env name) \<longrightarrow>
      find_playlist_by_name env name = Inr None \<and>
      snd (reading_source_mp env name) = Inr None \<and>
      snd (migrate_playlist_mp env name dry_run) = Inr False) \<and>
   (jf_users_me env = Inr user_id \<and> jf_playlists env = Inr playlists \<and>
    playlists = before @ target # after \<and>
    (\<forall>q\<in>set before. pl_Name q \<noteq> Some name) \<and> pl_Name target = Some name \<and>
    pl_Id target = Some pid \<and> jf_playlist_items env pid = Inr items \<and>
    plex_account env = Inr account \<and> plex_server env = Inr server \<longrightarrow>
      reading_source_cli env name = Inr items) \<and>
   (jf_users_me env = Inr user_id \<and> jf_playlists env = Inr playlists \<and>
    (\<forall>q\<in>set playlists. pl_Name q \<noteq> Some name) \<longrightarrow>
      reading_source_cli env name
        = Inl (SystemExit (''Playlist '' @ [CHR 0x27] @ name @ [CHR 0x27]
                           @ '' not found on Jellyfin'')))"
proof (intro conjI impI)
  assume "playlists = before @ target # after \<and>
    (\<forall>q\<in>set before. \<exists>n. pl_Name q = Some n \<and> str_lower env n \<noteq> str_lower env name) \<and>
    pl_Name target = Some nm \<and> str_lower env nm = str_lower env name"
  then show "select_playlist_pm env name playlists
        = ([Print (''Found playlist: '' @ nm)], Inr (Some target))"
    using select_playlist_pm_found by blast
next
  assume "playlists = first # rest \<and>
    (\<forall>q\<in>set playlists. \<exists>n. pl_Name q = Some n \<and> str_lower env n \<noteq> str_lower env name) \<and>
    pl_Name first = Some nm"
  then show "select_playlist_pm env name playlists
        = ([Print (''Exact match not found, using playlist: '' @ nm)], Inr (Some first))"
    using select_playlist_pm_fallback by blast
next
  assume "jf_playlists env = Inr playlists \<and>
    snd (select_playlist_pm env name playlists) = Inr (Some target) \<and>
    pl_Id target = Some pid \<and> jf_playlist_items env pid = Inr items \<and> items \<noteq> []"
  then show "snd (reading_source_pm env name) = Inr (Some (target, items))"
    using reading_source_pm_selected by blast
next
  assume a: "jf_playlists env = Inr playlists \<and> playlists = before @ target # after \<and>
    (\<forall>q\<in>set before. str_lower env (case pl_Name q of None \<Rightarrow> [] | Some n \<Rightarrow> n)
                       \<noteq> str_lower env name) \<and>
    str_lower env (case pl_Name target of None \<Rightarrow> [] | Some n \<Rightarrow> n) = str_lower env name"
  have "find (\<lambda>playlist. str_lower env (case pl_Name playlist of None \<Rightarrow> [] | Some n \<Rightarrow> n)
                 = str_lower env name) (before @ target # after) = Some target"
    using a by (intro find_first) auto
  then show f: "find_playlist_by_name env name = Inr (Some target)"
    using a by (simp add: find_playlist_by_name_def)
  assume "pl_Name target = Some nm \<and> pl_Id target = Some pid \<and>
       jf_playlist_items env pid = Inr items"
  then show "snd (reading_source_mp env name) = Inr (Some (nm, items))"
    using f reading_source_mp_found by blast
next
  assume a: "jf_playlists env = Inr playlists \<and>
    (\<forall>q\<in>set playlists. str_lower env (case pl_Name q of None \<Rightarrow> [] | Some n \<Rightarrow> n)
                          \<noteq> str_lower env name)"
  have "find (\<lambda>playlist. str_lower env (case pl_Name playlist of None \<Rightarrow> [] | Some n \<Rightarrow> n)
                 = str_lower env name) playlists = None"
    using a by (simp add: find_None_iff)
  then show f: "find_playlist_by_name env name = Inr None"
    using a by (simp add: find_playlist_by_name_def)
  then show r: "snd (reading_source_mp env name) = Inr None"
    by (simp add: reading_source_mp_def)
  obtain t where "reading_source_mp env name = (t, Inr None)"
    using r by (cases "reading_source_mp env name") simp
  then show "snd (migrate_playlist_mp env name dry_run) = Inr False"
    by (simp add: migrate_playlist_mp_def)
next
  assume a: "jf_users_me env = Inr user_id \<and> jf_playlists env = Inr playlists \<and>
    playlists = before @ target # after \<and>
    (\<forall>q\<in>set before. pl_Name q \<noteq> Some name) \<and> pl_Name target = Some name \<and>
    pl_Id target = Some pid \<and> jf_playlist_items env pid = Inr items \<and>
    plex_account env = Inr account \<and> plex_server env = Inr server"
  have "find (\<lambda>p. pl_Name p = Some name) (before @ target # after) = Some target"
    using a by (intro find_first) auto
  then show "reading_source_cli env name = Inr items"
    using a by (simp add: reading_source_cli_def)
next
  assume a: "jf_users_me env = Inr user_id \<and> jf_playlists env = Inr playlists \<and>
    (\<forall>q\<in>set playlists. pl_Name q \<noteq> Some name)"
  have "find (\<lambda>p. pl_Name p = Some name) playlists = None"
    using a by (simp add: find_None_iff)
  then show "reading_source_cli env name
        = Inl (SystemExit (''Playlist '' @ [CHR 0x27] @ name @ [CHR 0x27]
                           @ '' not found on Jellyfin''))"
    using a by (simp add: reading_source_cli_def)
qed


theorem playlist_lookup_witness:
  "jf_playlists two_playlists = Inr [jazz, road_trip] \<and>
   select_playlist_pm two_playlists ''road trip'' [jazz, road_trip]
     = ([Print ''Found playlist: Road Trip''], Inr (Some road_trip)) \<and>
   snd (reading_source_pm two_playlists ''road trip'')
     = Inr (Some (road_trip, [song_a, song_c])) \<and>
   select_playlist_pm two_playlists ''road'' [jazz, road_trip]
     = ([Print ''Exact match not found, using playlist: Jazz''], Inr (Some jazz)) \<and>
   snd (reading_source_pm two_playlists ''road'') = Inr (Some (jazz, [song_x])) \<and>
   find_playlist_by_name two_playlists ''ROAD TRIP'' = Inr (Some road_trip) \<and>
   snd (reading_source_mp two_playlists ''ROAD TRIP'')
     = Inr (Some (''Road Trip'', [song_a, song_c])) \<and>
   find_playlist_by_name two_playlists ''road'' = Inr None \<and>
   snd (migrate_playlist_mp two_playlists ''road'' False) = Inr False \<and>
   reading_source_cli two_playlists ''Road Trip'' = Inr [song_a, song_c] \<and>
   reading_source_cli two_playlists ''road''
     = Inl (SystemExit ''Playlist 'road' not found on Jellyfin'')"
proof -
  let ?E = "two_playlists"
  have j: "jf_playlists ?E = Inr [jazz, road_trip]" by (simp add: two_playlists_def)
  have u: "jf_users_me ?E = Inr ''u1''" by (simp add: two_playlists_def)
  have px: "plex_account ?E = Inr ''me'' \<and> plex_server ?E = Inr ''plex''"
    by (simp add: two_playlists_def)
  have d: "[jazz, road_trip] = [jazz] @ road_trip # []" by simp
  have nr: "pl_Name road_trip = Some ''Road Trip'' \<and> pl_Id road_trip = Some ''42''"
    by (simp add: road_trip_def)
  have nj: "pl_Name jazz = Some ''Jazz'' \<and> pl_Id jazz = Some ''7''"
    by (simp add: jazz_def)
  have i42: "jf_playlist_items ?E ''42'' = Inr [song_a, song_c]"
    by (simp add: two_playlists_def)
  have i7: "jf_playlist_items ?E ''7'' = Inr [song_x]"
    by (simp add: two_playlists_def)
  have b1: "\<forall>q\<in>set [jazz]. \<exists>n. pl_Name q = Some n
              \<and> str_lower ?E n \<noteq> str_lower ?E ''road trip''"
    by (simp add: ex_defs run_defs)
  have e1: "str_lower ?E ''Road Trip'' = str_lower ?E ''road trip''"
    by (simp add: ex_defs run_defs)
  have s1: "select_playlist_pm ?E ''road trip'' [jazz, road_trip]
              = ([Print (''Found playlist: '' @ ''Road Trip'')], Inr (Some road_trip))"
    using playlist_lookup [where env = ?E and name = "''road trip''"
        and playlists = "[jazz, road_trip]" and before = "[jazz]" and target = road_trip
        and after = "[]" and nm = "''Road Trip''"] d b1 nr e1
    by blast
  have r1: "snd (reading_source_pm ?E ''road trip'') = Inr (Some (road_trip, [song_a, song_c]))"
    using playlist_lookup [where env = ?E and name = "''road trip''"
        and playlists = "[jazz, road_trip]" and target = road_trip and pid = "''42''"
        and items = "[song_a, song_c]"] j s1 nr i42
    by simp
  have b2: "\<forall>q\<in>set [jazz, road_trip]. \<exists>n. pl_Name q = Some n
              \<and> str_lower ?E n \<noteq> str_lower ?E ''road''"
    by (simp add: ex_defs run_defs)
  have s2: "select_playlist_pm ?E ''road'' [jazz, road_trip]
              = ([Print (''Exact match not found, using playlist: '' @ ''Jazz'')],
                 Inr (Some jazz))"
    using playlist_lookup [where env = ?E and name = "''road''"
        and playlists = "[jazz, road_trip]" and first = jazz and rest = "[road_trip]"
        and nm = "''Jazz''"] b2 nj
    by blast
  have r2: "snd (reading_source_pm ?E ''road'') = Inr (Some (jazz, [song_x]))"
    using playlist_lookup [where env = ?E and name = "''road''"
        and playlists = "[jazz, road_trip]" and target = jazz and pid = "''7''"
        and items = "[song_x]"] j s2 nj i7
    by simp
  have b3: "\<forall>q\<in>set [jazz]. str_lower ?E (case pl_Name q of None \<Rightarrow> [] | Some n \<Rightarrow> n)
              \<noteq> str_lower ?E ''ROAD TRIP''"
    by (simp add: ex_defs run_defs)
  have e3: "str_lower ?E (case pl_Name road_trip of None \<Rightarrow> [] | Some n \<Rightarrow> n)
              = str_lower ?E ''ROAD TRIP''"
    by (simp add: ex_defs run_defs)
  have a1: "find_playlist_by_name ?E ''ROAD TRIP'' = Inr (Some road_trip) \<and>
            snd (reading_source_mp ?E ''ROAD TRIP'') = Inr (Some (''Road Trip'', [song_a, song_c]))"
    using playlist_lookup [where env = ?E and name = "''ROAD TRIP''"
        and playlists = "[jazz, road_trip]" and before = "[jazz]" and target = road_trip
        and after = "[]" and nm = "''Road Trip''" and pid = "''42''"
        and items = "[song_a, song_c]"] j d b3 e3 nr i42
    by blast
  have b4: "\<forall>q\<in>set [jazz, road_trip].
              str_lower ?E (case pl_Name q of None \<Rightarrow> [] | Some n \<Rightarrow> n) \<noteq> str_lower ?E ''road''"
    by (simp add: ex_defs run_defs)
  have a2: "find_playlist_by_name ?E ''road'' = Inr None \<and>
            snd (migrate_playlist_mp ?E ''road'' False) = Inr False"
    using playlist_lookup [where env = ?E and name = "''road''"
        and playlists = "[jazz, road_trip]" and dry_run = False] j b4
    by blast
  have b5: "\<forall>q\<in>set [jazz]. pl_Name q \<noteq> Some ''Road Trip''"
    by (simp add: jazz_def)
  have c1: "reading_source_cli ?E ''Road Trip'' = Inr [song_a, song_c]"
    using playlist_lookup [where env = ?E and name = "''Road Trip''"
        and playlists = "[jazz, road_trip]" and before = "[jazz]" and target = road_trip
        and after = "[]" and pid = "''42''" and items = "[song_a, song_c]"
        and user_id = "''u1''" and account = "''me''" and server = "''plex''"]
      u j d b5 nr i42 px
    by blast
  have b6: "\<forall>q\<in>set [jazz, road_trip]. pl_Name q \<noteq> Some ''road''"
    by (simp add: jazz_def road_trip_def)
  have c2: "reading_source_cli ?E ''road''
              = Inl (SystemExit (''Playlist '' @ [CHR 0x27] @ ''road'' @ [CHR 0x27]
                                 @ '' not found on Jellyfin''))"
    using playlist_lookup [where env = ?E and name = "''road''"
        and playlists = "[jazz, road_trip]" and user_id = "''u1''"] u j b6
    by blast
  show ?thesis
    using j s1 r1 s2 r2 a1 a2 c1 c2 by simp
qed

text \<open>
  C7 as stated says every lookup compares the names without regard to case. Jellyfin
  holds the playlist \<open>Road Trip\<close>; the lowered names of \<open>Road Trip\<close> and \<open>road trip\<close>
  are equal and \<^verbatim>\<open>migrate_playlist.py\<close> asked for \<open>road trip\<close> finds it;
  \<^verbatim>\<open>cli.py\<close> asked for \<open>road trip\<close> leaves with SystemExit, the playlist not found.
\<close>

theorem playlist_lookup_counterexample:
  "jf_playlists two_playlists = Inr [jazz, road_trip] \<and>
   pl_Name road_trip = Some ''Road Trip'' \<and>
   str_lower two_playlists ''Road Trip'' = str_lower two_playlists ''road trip'' \<and>
   find_playlist_by_name two_playlists ''road trip'' = Inr (Some road_trip) \<and>
   reading_source_cli two_playlists ''road trip''
     = Inl (SystemExit ''Playlist 'road trip' not found on Jellyfin'') \<and>
   migrate_playlist_cli two_playlists ''road trip''
     = ([], Inl (SystemExit ''Playlist 'road trip' not found on Jellyfin''))"
  by (simp add: ex_defs run_defs)

subsection \<open>C8: the report of unmatched items and the outcome\<close>

text \<open>
  C8, as amended. \<^verbatim>\<open>migrate_playlist.py\<close> keeps one entry per unmatched item, in source
  order (the name of an item without a path, \<open>name (path)\<close> of an item not found), and
  logs every entry before the gate. \<^verbatim>\<open>playlist_migrator.py\<close> keeps the name of every
  unmatched item and prints the names when at least one item matched. \<^verbatim>\<open>cli.py\<close>
  keeps no list: a run over a playlist is the run over the playlist without its items
  that have no path, events included. In the first two files the result of the deciding
  part does not depend on the list of unmatched items: a run that creates the playlist
  returns True whether or not items were left out.
\<close>

theorem unmatched_items_report:
  "(snd (items_loop_mp env items [] []) = Inr (p, m) \<longrightarrow>
      m = map missing_entry_mp (filter (\<lambda>i. match_of_mp env i = None) items) \<and>
      (\<forall>x\<in>set m. Log WARNING (''  - '' @ x) \<in> set (fst (deciding_mp env nm dry_run p m))) \<and>
      snd (deciding_mp env nm dry_run p m) = snd (deciding_mp env nm dry_run p [])) \<and>
   (snd (items_loop_pm env items [] []) = (p, m) \<longrightarrow>
      m = map item_name (filter (\<lambda>i. match_of_pm env i = None) items) \<and>
      (p \<noteq> [] \<longrightarrow>
         (\<forall>x\<in>set m. Print (''  - '' @ x)
                      \<in> set (fst (deciding_pm env name target items p m)))) \<and>
      snd (deciding_pm env name target items p m)
        = snd (deciding_pm env name target items p [])) \<and>
   items_loop_cli env items p
     = items_loop_cli env (filter (\<lambda>i. truthy (it_Path i) \<noteq> None) items) p"
proof (intro conjI impI ballI)
  assume l: "snd (items_loop_mp env items [] []) = Inr (p, m)"
  show "m = map missing_entry_mp (filter (\<lambda>i. match_of_mp env i = None) items)"
    using items_loop_mp_result [OF l] by simp
  show "snd (deciding_mp env nm dry_run p m) = snd (deciding_mp env nm dry_run p [])"
    by (rule deciding_mp_ignores_missing)
  fix x assume "x \<in> set m"
  then show "Log WARNING (''  - '' @ x) \<in> set (fst (deciding_mp env nm dry_run p m))"
    by (rule deciding_mp_lists_missing)
next
  assume l: "snd (items_loop_pm env items [] []) = (p, m)"
  show "m = map item_name (filter (\<lambda>i. match_of_pm env i = None) items)"
    using l by (simp add: items_loop_pm_result)
  show "snd (deciding_pm env name target items p m)
        = snd (deciding_pm env name target items p [])"
    by (rule deciding_pm_ignores_not_found)
  fix x assume "p \<noteq> []" "x \<in> set m"
  then show "Print (''  - '' @ x) \<in> set (fst (deciding_pm env name target items p m))"
    by (rule deciding_pm_lists_not_found)
next
  show "items_loop_cli env items p
     = items_loop_cli env (filter (\<lambda>i. truthy (it_Path i) \<noteq> None) items) p"
    by (rule items_loop_cli_skips_no_path)
qed

theorem unmatched_items_report_witness:
  "snd (items_loop_mp (scenario [music] [song_a, song_x, song_c]) [song_a, song_x, song_c] [] [])
     = Inr ([track_a], [''x (/media/x.mp3)'', ''c'']) \<and>
   Log WARNING ''  - x (/media/x.mp3)''
     \<in> set (fst (deciding_mp (scenario [music] [song_a, song_x, song_c]) ''Road Trip'' False
                   [track_a] [''x (/media/x.mp3)'', ''c''])) \<and>
   Log WARNING ''  - c''
     \<in> set (fst (deciding_mp (scenario [music] [song_a, song_x, song_c]) ''Road Trip'' False
                   [track_a] [''x (/media/x.mp3)'', ''c''])) \<and>
   snd (items_loop_pm (scenario [music] [song_a, song_x, song_c]) [song_a, song_x, song_c] [] [])
     = ([track_a], [''x'', ''c'']) \<and>
   Print ''  - c''
     \<in> set (fst (deciding_pm (scenario [music] [song_a, song_x, song_c]) ''Road Trip'' road_trip
                   [song_a, song_x, song_c] [track_a] [''x'', ''c''])) \<and>
   items_loop_cli (scenario [music] [song_a, song_x, song_c]) [song_a, song_x, song_c] []
     = items_loop_cli (scenario [music] [song_a, song_x, song_c]) [song_a, song_x] []"
proof -
  let ?E = "scenario [music] [song_a, song_x, song_c]"
  let ?items = "[song_a, song_x, song_c]"
  have l1: "snd (items_loop_mp ?E ?items [] []) = Inr ([track_a], [''x (/media/x.mp3)'', ''c''])"
    by (simp add: ex_defs run_defs)
  have l2: "snd (items_loop_pm ?E ?items [] []) = ([track_a], [''x'', ''c''])"
    by (simp add: ex_defs run_defs)
  have f: "filter (\<lambda>i. truthy (it_Path i) \<noteq> None) ?items = [song_a, song_x]"
    by (simp add: ex_defs run_defs)
  note t1 = unmatched_items_report [where env = ?E and items = ?items and p = "[track_a]"
      and m = "[''x (/media/x.mp3)'', ''c'']" and nm = "''Road Trip''" and dry_run = False]
  note t2 = unmatched_items_report [where env = ?E and items = ?items and p = "[track_a]"
      and m = "[''x'', ''c'']" and name = "''Road Trip''" and target = road_trip]
  note t3 = unmatched_items_report [where env = ?E and items = ?items and p = "[]"]
  have a: "\<forall>x\<in>set [''x (/media/x.mp3)'', ''c''].
             Log WARNING (''  - '' @ x)
               \<in> set (fst (deciding_mp ?E ''Road Trip'' False [track_a]
                             [''x (/media/x.mp3)'', ''c'']))"
    using t1 l1 by blast
  have b: "\<forall>x\<in>set [''x'', ''c''].
             Print (''  - '' @ x)
               \<in> set (fst (deciding_pm ?E ''Road Trip'' road_trip ?items [track_a] [''x'', ''c'']))"
    using t2 l2 by blast
  have c: "items_loop_cli ?E ?items [] = items_loop_cli ?E [song_a, song_x] []"
    using t3 f by simp
  show ?thesis using l1 l2 a b c by simp
qed

text \<open>
  C8 as stated says that every unmatched item is listed with its reason and that a run
  creating the playlist with items left out says so in its outcome. On the playlist of
  the two indexed songs and the song \<open>c\<close> without a path, \<^verbatim>\<open>migrate_playlist.py\<close> and
  \<^verbatim>\<open>playlist_migrator.py\<close> return True, as they do on the playlist of the two indexed
  songs alone, and the last line of the first is the plain success line; the run of
  \<^verbatim>\<open>cli.py\<close> is, event for event, its run on the playlist without \<open>c\<close>.
\<close>

theorem partial_success_counterexample:
  "snd (items_loop_mp (scenario [music] [song_a, song_b, song_c]) [song_a, song_b, song_c] [] [])
     = Inr ([track_a, track_b], [''c'']) \<and>
   snd (migrate_playlist_mp (scenario [music] [song_a, song_b, song_c]) ''Road Trip'' False)
     = Inr True \<and>
   snd (migrate_playlist_mp (scenario [music] [song_a, song_b]) ''Road Trip'' False)
     = Inr True \<and>
   last (fst (migrate_playlist_mp (scenario [music] [song_a, song_b, song_c]) ''Road Trip'' False))
     = Log INFO ''Successfully created playlist 'Road Trip' in Plex'' \<and>
   snd (migrate_playlist_pm (scenario [music] [song_a, song_b, song_c]) ''Road Trip'')
     = Inr True \<and>
   snd (migrate_playlist_pm (scenario [music] [song_a, song_b]) ''Road Trip'') = Inr True \<and>
   migrate_playlist_cli (scenario [music] [song_a, song_b, song_c]) ''Road Trip''
     = ([PlexSections, PlexSearch ''Music'' ''/media/a.mp3'',
         PlexSections, PlexSearch ''Music'' ''/media/b.mp3'',
         PlexCreate ''Road Trip'' [track_a, track_b],
         Print ''Created playlist 'Road Trip' in Plex with 2 items''], Inr ()) \<and>
   migrate_playlist_cli (scenario [music] [song_a, song_b]) ''Road Trip''
     = migrate_playlist_cli (scenario [music] [song_a, song_b, song_c]) ''Road Trip''"
  by (simp add: ex_defs run_defs str_nat.simps)

subsection \<open>C9: the match test\<close>

text \<open>
  C9, as amended. In \<^verbatim>\<open>migrate_playlist.py\<close> the match test is string equality: the
  entry returned for a path is an entry of a section one of whose part files equals the
  path, an entry none of whose part files equals the path is never returned, and the
  first such entry of the first section that holds one is returned.
  \<^verbatim>\<open>playlist_migrator.py\<close> and \<^verbatim>\<open>cli.py\<close> compare nothing themselves: of the first
  library, in Plex's order, whose search for the path answers with a non-empty list
  (the libraries before it raising or answering the empty list), they return the first
  result, whatever its files are; so the match is as exact as the destination's search
  is.
\<close>

theorem path_match_test:
  "(snd (scan_sections_mp p ss) = Some item \<longrightarrow>
      (\<exists>media. pi_media item = Some media \<and> p \<in> set (concat media)) \<and>
      (\<exists>s\<in>set ss. \<exists>items. sec_all s = Inr items \<and> item \<in> set items)) \<and>
   ((\<forall>media. pi_media entry = Some media \<longrightarrow> p \<notin> set (concat media)) \<longrightarrow>
      snd (scan_sections_mp p ss) \<noteq> Some entry) \<and>
   (plex_sections env = Inr ss \<and> ss = before @ s # after \<and>
    (\<forall>q\<in>set before. case sec_all q of Inl e \<Rightarrow> True
                       | Inr items \<Rightarrow> find (part_file_equals p) items = None) \<and>
    sec_all s = Inr items \<and> find (part_file_equals p) items = Some item \<longrightarrow>
      snd (find_media_by_path_mp env p) = Inr (Some item)) \<and>
   (plex_sections env = Inr ss \<and> ss = before @ s # after \<and>
    (\<forall>q\<in>set before. case sec_search_filepath q p of Inl e \<Rightarrow> True
                       | Inr results \<Rightarrow> results = []) \<and>
    sec_search_filepath s p = Inr (item # rest) \<longrightarrow>
      snd (find_media_by_path_pm env p) = Some item) \<and>
   (plex_sections env = Inr ss \<and> ss = before @ s # after \<and>
    (\<forall>q\<in>set before. case sec_search_filename q p of Inl e \<Rightarrow> True
                       | Inr results \<Rightarrow> results = []) \<and>
    sec_search_filename s p = Inr (item # rest) \<longrightarrow>
      snd (find_plex_item env p) = Inr (Some item)) \<and>
   (snd (search_libraries_pm p ss) = Some item \<longrightarrow>
      (\<exists>s\<in>set ss. \<exists>rest. sec_search_filepath s p = Inr (item # rest))) \<and>
   (snd (search_sections_cli p ss) = Some item \<longrightarrow>
      (\<exists>s\<in>set ss. \<exists>rest. sec_search_filename s p = Inr (item # rest)))"
proof (intro conjI impI)
  assume a: "snd (scan_sections_mp p ss) = Some item"
  have "part_file_equals p item" using scan_sections_mp_Some [OF a] by simp
  then show "\<exists>media. pi_media item = Some media \<and> p \<in> set (concat media)"
    by (simp add: part_file_equals_def split: option.splits)
  show "\<exists>s\<in>set ss. \<exists>items. sec_all s = Inr items \<and> item \<in> set items"
    using scan_sections_mp_Some [OF a] by simp
next
  assume n: "\<forall>media. pi_media entry = Some media \<longrightarrow> p \<notin> set (concat media)"
  show "snd (scan_sections_mp p ss) \<noteq> Some entry"
  proof
    assume "snd (scan_sections_mp p ss) = Some entry"
    then have "part_file_equals p entry" using scan_sections_mp_Some by blast
    then show False using n by (simp add: part_file_equals_def split: option.splits)
  qed
next
  assume a: "plex_sections env = Inr ss \<and> ss = before @ s # after \<and>
    (\<forall>q\<in>set before. case sec_all q of Inl e \<Rightarrow> True
                       | Inr items \<Rightarrow> find (part_file_equals p) items = None) \<and>
    sec_all s = Inr items \<and> find (part_file_equals p) items = Some item"
  then have "snd (scan_sections_mp p ss) = Some item"
    using scan_sections_mp_first by blast
  then show "snd (find_media_by_path_mp env p) = Inr (Some item)"
    using a find_media_by_path_mp_sections by simp
next
  assume a: "plex_sections env = Inr ss \<and> ss = before @ s # after \<and>
    (\<forall>q\<in>set before. case sec_search_filepath q p of Inl e \<Rightarrow> True
                       | Inr results \<Rightarrow> results = []) \<and>
    sec_search_filepath s p = Inr (item # rest)"
  then have "snd (search_libraries_pm p ss) = Some item"
    using search_libraries_pm_first by blast
  then show "snd (find_media_by_path_pm env p) = Some item"
    using a find_media_by_path_pm_sections by simp
next
  assume a: "plex_sections env = Inr ss \<and> ss = before @ s # after \<and>
    (\<forall>q\<in>set before. case sec_search_filename q p of Inl e \<Rightarrow> True
                       | Inr results \<Rightarrow> results = []) \<and>
    sec_search_filename s p = Inr (item # rest)"
  then have "snd (search_sections_cli p ss) = Some item"
    using search_sections_cli_first by blast
  then show "snd (find_plex_item env p) = Inr (Some item)"
    using a find_plex_item_sections by simp
next
  assume "snd (search_libraries_pm p ss) = Some item"
  then show "\<exists>s\<in>set ss. \<exists>rest. sec_search_filepath s p = Inr (item # rest)"
    by (rule search_libraries_pm_Some)
next
  assume "snd (search_sections_cli p ss) = Some item"
  then show "\<exists>s\<in>set ss. \<exists>rest. sec_search_filename s p = Inr (item # rest)"
    by (rule search_sections_cli_Some)
qed

theorem path_match_test_witness:
  "plex_sections (scenario [vacant, broken, loose, music] []) = Inr [vacant, broken, loose, music] \<and>
   sec_search_filepath vacant ''/media/a.mp3'' = Inr [] \<and>
   sec_search_filepath broken ''/media/a.mp3'' = Inl (OtherError ''timeout'') \<and>
   sec_search_filepath loose ''/media/a.mp3'' = Inr [track_a_bak] \<and>
   sec_search_filepath music ''/media/a.mp3'' = Inr [track_a] \<and>
   pi_media track_a_bak = Some [[''/media/a.mp3.bak'']] \<and>
   snd (find_media_by_path_pm (scenario [vacant, broken, loose, music] []) ''/media/a.mp3'')
     = Some track_a_bak \<and>
   snd (find_plex_item (scenario [vacant, broken, loose, music] []) ''/media/a.mp3'')
     = Inr (Some track_a_bak) \<and>
   snd (find_media_by_path_mp (scenario [vacant, broken, loose, music] []) ''/media/a.mp3'')
     = Inr (Some track_a) \<and>
   snd (scan_sections_mp ''/media/a.mp3'' [vacant, broken, loose, music]) \<noteq> Some track_a_bak \<and>
   pi_media track_a = Some [[''/media/a.mp3'']] \<and>
   ''/media/a.mp3'' \<in> set (concat [[''/media/a.mp3'']])"
proof -
  let ?ss = "[vacant, broken, loose, music]"
  let ?E = "scenario ?ss []"
  let ?p = "''/media/a.mp3''"
  have e: "plex_sections ?E = Inr ?ss" by (simp add: scenario_def)
  have d1: "?ss = [vacant, broken] @ loose # [music]" by simp
  have d2: "?ss = [vacant, broken, loose] @ music # []" by simp
  have v: "sec_search_filepath vacant ?p = Inr [] \<and> sec_search_filename vacant ?p = Inr []"
    by (simp add: vacant_def)
  have b: "sec_search_filepath broken ?p = Inl (OtherError ''timeout'') \<and>
           sec_search_filename broken ?p = Inl (OtherError ''timeout'')"
    by (simp add: broken_def)
  have l: "sec_search_filepath loose ?p = Inr (track_a_bak # []) \<and>
           sec_search_filename loose ?p = Inr (track_a_bak # [])"
    by (simp add: loose_def)
  have m: "sec_search_filepath music ?p = Inr [track_a]"
    by (simp add: ex_defs run_defs)
  have h1: "\<forall>q\<in>set [vacant, broken]. case sec_search_filepath q ?p of Inl e \<Rightarrow> True
              | Inr results \<Rightarrow> results = []"
    using v b by simp
  have h2: "\<forall>q\<in>set [vacant, broken]. case sec_search_filename q ?p of Inl e \<Rightarrow> True
              | Inr results \<Rightarrow> results = []"
    using v b by simp
  have h3: "\<forall>q\<in>set [vacant, broken, loose]. case sec_all q of Inl e \<Rightarrow> True
              | Inr items \<Rightarrow> find (part_file_equals ?p) items = None"
    by (simp add: ex_defs run_defs)
  have ma: "sec_all music = Inr [track_a, track_b] \<and>
            find (part_file_equals ?p) [track_a, track_b] = Some track_a"
    by (simp add: ex_defs run_defs)
  have r1: "snd (find_media_by_path_pm ?E ?p) = Some track_a_bak"
    using path_match_test [where env = ?E and ss = ?ss and p = ?p and before = "[vacant, broken]"
        and s = loose and after = "[music]" and item = track_a_bak and rest = "[]"] e d1 h1 l
    by blast
  have r2: "snd (find_plex_item ?E ?p) = Inr (Some track_a_bak)"
    using path_match_test [where env = ?E and ss = ?ss and p = ?p and before = "[vacant, broken]"
        and s = loose and after = "[music]" and item = track_a_bak and rest = "[]"] e d1 h2 l
    by blast
  have r3: "snd (find_media_by_path_mp ?E ?p) = Inr (Some track_a)"
    using path_match_test [where env = ?E and ss = ?ss and p = ?p
        and before = "[vacant, broken, loose]" and s = music and after = "[]"
        and item = track_a and items = "[track_a, track_b]"] e d2 h3 ma
    by blast
  have s3: "snd (scan_sections_mp ?p ?ss) = Some track_a"
    using r3 find_media_by_path_mp_sections [OF e, of ?p] by simp
  have r4: "\<exists>media. pi_media track_a = Some media \<and> ?p \<in> set (concat media)"
    using path_match_test [where ss = ?ss and p = ?p and item = track_a] s3 by blast
  have n: "\<forall>media. pi_media track_a_bak = Some media \<longrightarrow> ?p \<notin> set (concat media)"
    by (simp add: track_a_bak_def)
  have r5: "snd (scan_sections_mp ?p ?ss) \<noteq> Some track_a_bak"
    using path_match_test [where ss = ?ss and p = ?p and entry = track_a_bak] n by blast
  show ?thesis
    using e v b l m r1 r2 r3 r4 r5 by (simp add: track_a_bak_def track_a_def)
qed

text \<open>
  C9 as stated says an entry indexed under a different path is never matched. Where a
  library's search answers the path \<open>/media/a.mp3\<close> with the entry indexed under
  \<open>/media/a.mp3.bak\<close>, \<^verbatim>\<open>playlist_migrator.py\<close> and \<^verbatim>\<open>cli.py\<close> take that entry
  as the match and create the playlist with it; \<^verbatim>\<open>migrate_playlist.py\<close>, which
  compares the files itself, finds no match in the same library.
\<close>

theorem exact_path_counterexample:
  "pi_media track_a_bak = Some [[''/media/a.mp3.bak'']] \<and>
   ''/media/a.mp3.bak'' \<noteq> ''/media/a.mp3'' \<and>
   sec_search_filepath loose ''/media/a.mp3'' = Inr [track_a_bak] \<and>
   sec_search_filename loose ''/media/a.mp3'' = Inr [track_a_bak] \<and>
   snd (find_media_by_path_pm (scenario [loose] [song_a]) ''/media/a.mp3'') = Some track_a_bak \<and>
   snd (find_plex_item (scenario [loose] [song_a]) ''/media/a.mp3'') = Inr (Some track_a_bak) \<and>
   PlexCreate ''Road Trip (from Jellyfin)'' [track_a_bak]
     \<in> set (fst (migrate_playlist_pm (scenario [loose] [song_a]) ''Road Trip'')) \<and>
   PlexCreate ''Road Trip'' [track_a_bak]
     \<in> set (fst (migrate_playlist_cli (scenario [loose] [song_a]) ''Road Trip'')) \<and>
   snd (find_media_by_path_mp (scenario [loose] [song_a]) ''/media/a.mp3'') = Inr None"
  by (simp add: ex_defs run_defs)

subsection \<open>C10: the name of the destination playlist\<close>

text \<open>
  C10. Every creation call of \<^verbatim>\<open>playlist_migrator.py\<close> names the new playlist by the
  chosen source playlist's name followed by \<open>'' (from Jellyfin)''\<close>, which differs from
  the source name. The creation call of \<^verbatim>\<open>migrate_playlist.py\<close> uses the name of the
  playlist found, that of \<^verbatim>\<open>cli.py\<close> the requested name, both unchanged.
\<close>

theorem destination_playlist_name:
  "(PlexCreate n xs \<in> set (fst (migrate_playlist_pm env name)) \<longrightarrow>
      (\<exists>target items nm. snd (reading_source_pm env name) = Inr (Some (target, items)) \<and>
         pl_Name target = Some nm \<and> n = nm @ '' (from Jellyfin)'' \<and> n \<noteq> nm)) \<and>
   (PlexCreate n xs \<in> set (fst (migrate_playlist_mp env name dry_run)) \<longrightarrow>
      (\<exists>pl. find_playlist_by_name env name = Inr (Some pl) \<and> pl_Name pl = Some n)) \<and>
   (PlexCreate n xs \<in> set (fst (migrate_playlist_cli env name)) \<longrightarrow> n = name)"
proof (intro conjI impI)
  assume "PlexCreate n xs \<in> set (fst (migrate_playlist_pm env name))"
  then obtain target items nm where
    "snd (reading_source_pm env name) = Inr (Some (target, items))"
    "pl_Name target = Some nm" "n = nm @ '' (from Jellyfin)''"
    using migrate_playlist_pm_create by blast
  moreover have "nm @ '' (from Jellyfin)'' \<noteq> nm" by simp
  ultimately show "\<exists>target items nm. snd (reading_source_pm env name) = Inr (Some (target, items)) \<and>
         pl_Name target = Some nm \<and> n = nm @ '' (from Jellyfin)'' \<and> n \<noteq> nm"
    by blast
next
  assume "PlexCreate n xs \<in> set (fst (migrate_playlist_mp env name dry_run))"
  then obtain items where "snd (reading_source_mp env name) = Inr (Some (n, items))"
    using migrate_playlist_mp_create by blast
  then show "\<exists>pl. find_playlist_by_name env name = Inr (Some pl) \<and> pl_Name pl = Some n"
    by (rule reading_source_mp_name)
next
  assume "PlexCreate n xs \<in> set (fst (migrate_playlist_cli env name))"
  then show "n = name" using migrate_playlist_cli_create by blast
qed

theorem destination_playlist_name_witness:
  "PlexCreate ''Road Trip (from Jellyfin)'' [track_a, track_b]
     \<in> set (fst (migrate_playlist_pm (scenario [music] [song_a, song_b, song_c]) ''road trip'')) \<and>
   PlexCreate ''Road Trip'' [track_a, track_b]
     \<in> set (fst (migrate_playlist_mp (scenario [music] [song_a, song_b, song_c]) ''road trip''
                   False)) \<and>
   PlexCreate ''Road Trip'' [track_a, track_b]
     \<in> set (fst (migrate_playlist_cli (scenario [music] [song_a, song_b, song_c]) ''Road Trip'')) \<and>
   snd (reading_source_pm (scenario [music] [song_a, song_b, song_c]) ''road trip'')
     = Inr (Some (road_trip, [song_a, song_b, song_c])) \<and>
   pl_Name road_trip = Some ''Road Trip'' \<and>
   ''Road Trip (from Jellyfin)'' \<noteq> ''Road Trip''"
proof -
  let ?E = "scenario [music] [song_a, song_b, song_c]"
  have c1: "PlexCreate ''Road Trip (from Jellyfin)'' [track_a, track_b]
              \<in> set (fst (migrate_playlist_pm ?E ''road trip''))"
    by (simp add: ex_defs run_defs)
  have c2: "PlexCreate ''Road Trip'' [track_a, track_b]
              \<in> set (fst (migrate_playlist_mp ?E ''road trip'' False))"
    by (simp add: ex_defs run_defs)
  have c3: "PlexCreate ''Road Trip'' [track_a, track_b]
              \<in> set (fst (migrate_playlist_cli ?E ''Road Trip''))"
    by (simp add: ex_defs run_defs)
  have r: "snd (reading_source_pm ?E ''road trip'') = Inr (Some (road_trip, [song_a, song_b, song_c]))"
    by (simp add: ex_defs run_defs)
  from destination_playlist_name [of "''Road Trip (from Jellyfin)''" "[track_a, track_b]" ?E
      "''road trip''" False] c1 r
  have "pl_Name road_trip = Some ''Road Trip'' \<and> ''Road Trip (from Jellyfin)'' \<noteq> ''Road Trip''"
    by auto
  then show ?thesis using c1 c2 c3 r by simp
qed

end
